theory Spec2Isabelle
  imports Main "HOL-Library.Word"
begin

section \<open>Library functions the pipeline relies on\<close>

text \<open>
  The service is written in Python. Text is modelled as \<^typ>\<open>string\<close>, binary content as
  a list of octets. The three library operations on text that decide the behaviour of the
  pipeline are written out here as CPython 3.10 to 3.13 computes them (from 3.14 on,
  \<^verbatim>\<open>suffix\<close> and \<^verbatim>\<open>stem\<close> differ for names that end in a dot or start with several dots):
  \<^item> \<^verbatim>\<open>str.lower()\<close>, restricted to what it does on ASCII letters (no character outside ASCII
    lowers to one of the letters of the supported extensions, so the restriction does not
    change any comparison made by the program);
  \<^item> \<^verbatim>\<open>str.startswith\<close>;
  \<^item> \<^verbatim>\<open>pathlib.Path(s).name\<close>, \<^verbatim>\<open>.suffix\<close> and \<^verbatim>\<open>.stem\<close> of the POSIX flavour: the name is the
    last component of \<^verbatim>\<open>s\<close> split at \<^verbatim>\<open>/\<close> that is neither empty nor \<^verbatim>\<open>.\<close>; with \<^verbatim>\<open>i\<close> the index
    of the last dot of the name, the suffix is \<^verbatim>\<open>name[i:]\<close> when \<^verbatim>\<open>0 < i < len(name) - 1\<close> and
    empty otherwise, and the stem is the rest of the name.
\<close>

type_synonym bytes = "8 word list"

definition lower_char :: "char \<Rightarrow> char" where
  "lower_char c =
     (case map_of (zip ''ABCDEFGHIJKLMNOPQRSTUVWXYZ'' ''abcdefghijklmnopqrstuvwxyz'') c of
        None \<Rightarrow> c
      | Some l \<Rightarrow> l)"

definition lower :: "string \<Rightarrow> string" where
  "lower s = map lower_char s"

definition startswith :: "string \<Rightarrow> string \<Rightarrow> bool" where
  "startswith s p = (take (length p) s = p)"

fun split_sep :: "char \<Rightarrow> string \<Rightarrow> string list" where
  "split_sep sep [] = [[]]"
| "split_sep sep (c # cs) =
     (if c = sep then [] # split_sep sep cs
      else (case split_sep sep cs of
              [] \<Rightarrow> [[c]]
            | p # ps \<Rightarrow> (c # p) # ps))"

fun rfind :: "char \<Rightarrow> string \<Rightarrow> nat option" where
  "rfind d [] = None"
| "rfind d (c # cs) =
     (case rfind d cs of
        Some i \<Rightarrow> Some (Suc i)
      | None \<Rightarrow> (if c = d then Some 0 else None))"

definition path_name :: "string \<Rightarrow> string" where
  "path_name s =
     (case rev (filter (\<lambda>p. p \<noteq> [] \<and> p \<noteq> ''.'') (split_sep CHR ''/'' s)) of
        [] \<Rightarrow> []
      | p # ps \<Rightarrow> p)"

definition name_suffix :: "string \<Rightarrow> string" where
  "name_suffix n =
     (case rfind CHR ''.'' n of
        None \<Rightarrow> []
      | Some i \<Rightarrow> (if 0 < i \<and> i < length n - 1 then drop i n else []))"

definition name_stem :: "string \<Rightarrow> string" where
  "name_stem n =
     (case rfind CHR ''.'' n of
        None \<Rightarrow> n
      | Some i \<Rightarrow> (if 0 < i \<and> i < length n - 1 then take i n else n))"

definition suffix :: "string \<Rightarrow> string" where
  "suffix s = name_suffix (path_name s)"

definition stem :: "string \<Rightarrow> string" where
  "stem s = name_stem (path_name s)"

section \<open>Data model\<close>

text \<open>
  An upload (\<^verbatim>\<open>fastapi.UploadFile\<close>) has an optional file name, an optional declared content
  type and an underlying file object. The bytes held by that file object are the field
  \<open>file_bytes\<close>; its read position is mutable and lives in the state (\<open>upload_pos\<close>), because the
  adapters hand the very same object on to the transcription client.
\<close>

record UploadFile =
  filename :: "string option"
  content_type :: "string option"
  file_bytes :: bytes

text \<open>
  Exceptions are values. Every constructor stands for a subclass of \<^verbatim>\<open>Exception\<close>:
  \<^verbatim>\<open>ffmpeg.Error\<close> with its captured standard error, the operating system's errors raised by
  the temporary-file and file operations, and the errors of the remote API client.
\<close>

datatype exn =
    FFmpegError "bytes option"
  | OSError string
  | FileExistsError string
  | FileNotFoundError string
  | APIError string

text \<open>
  The stream handed to the transcription client is either the upload's own file object or a
  fresh in-memory \<^verbatim>\<open>BytesIO\<close> (at position 0) holding the transcoded audio.
\<close>

datatype audio_stream = UploadStream | BytesIO bytes

text \<open>
  Calls to downstream components are recorded in the order they happen: the service manager,
  the creation of a temporary file, the run of the external transcoder (input path, output
  path) and the request to the remote transcription API (model, file name, stream object and
  the bytes read from it).
\<close>

datatype event =
    ServiceManagerCall
  | TempFile string
  | FFmpegRun string string
  | TranscriptionsCreate string string audio_stream bytes

record world =
  fs :: "string \<Rightarrow> bytes option"
  upload_pos :: nat
  calls :: "event list"

text \<open>
  What the environment decides. \<open>input_temp\<close> and \<open>output_temp\<close> are the outcome of the two
  \<^verbatim>\<open>NamedTemporaryFile\<close> calls: an error of the operating system, or the path chosen up to
  the suffix. \<open>write_input\<close> is the error, if any, of writing and flushing the input file.
  \<open>ffmpeg_run\<close> is the transcoder, applied to the input path, the output path and the bytes
  found at the input path. \<open>whisper\<close> is the remote API, applied to the model, the file name
  and the bytes sent.
\<close>

datatype ffmpeg_outcome = Completed bytes | ToolError "bytes option" | NotStarted exn

record env =
  input_temp :: "exn + string"
  output_temp :: "exn + string"
  write_input :: "exn option"
  ffmpeg_run :: "string \<Rightarrow> string \<Rightarrow> bytes option \<Rightarrow> ffmpeg_outcome"
  whisper :: "string \<Rightarrow> string \<Rightarrow> bytes \<Rightarrow> exn + string"

section \<open>File and stream operations\<close>

text \<open>
  \<^verbatim>\<open>tempfile.NamedTemporaryFile(delete=False, suffix=sfx)\<close> creates an empty file under a name
  that does not exist yet, or raises: the error of the operating system, or
  \<^verbatim>\<open>FileExistsError\<close> when no unused name was found (here: when the name the environment chose
  is in use). Leaving its \<^verbatim>\<open>with\<close> block closes the file and, because of \<^verbatim>\<open>delete=False\<close>,
  keeps it on disk. \<^verbatim>\<open>os.unlink\<close> removes a path and raises when there is nothing to remove.
\<close>

definition NamedTemporaryFile :: "(exn + string) \<Rightarrow> string \<Rightarrow> world \<Rightarrow> (exn + string) \<times> world" where
  "NamedTemporaryFile choice sfx w =
     (case choice of
        Inl x \<Rightarrow> (Inl x, w)
      | Inr base \<Rightarrow>
          (case fs w (base @ sfx) of
             Some b \<Rightarrow> (Inl (FileExistsError (base @ sfx)), w)
           | None \<Rightarrow>
               (Inr (base @ sfx),
                w\<lparr>fs := (fs w)(base @ sfx \<mapsto> []), calls := calls w @ [TempFile (base @ sfx)]\<rparr>)))"

definition unlink :: "string \<Rightarrow> world \<Rightarrow> exn option \<times> world" where
  "unlink p w =
     (case fs w p of
        None \<Rightarrow> (Some (FileNotFoundError p), w)
      | Some b \<Rightarrow> (None, w\<lparr>fs := (fs w)(p := None)\<rparr>))"

text \<open>
  \<^verbatim>\<open>UploadFile.seek\<close> sets the read position of the upload's file object; \<^verbatim>\<open>read()\<close> returns
  the bytes from the read position to the end and leaves the position at the end.
\<close>

definition seek :: "nat \<Rightarrow> world \<Rightarrow> world" where
  "seek n w = w\<lparr>upload_pos := n\<rparr>"

definition read_upload :: "UploadFile \<Rightarrow> world \<Rightarrow> bytes \<times> world" where
  "read_upload u w =
     (drop (upload_pos w) (file_bytes u), w\<lparr>upload_pos := max (upload_pos w) (length (file_bytes u))\<rparr>)"

definition read_stream :: "UploadFile \<Rightarrow> audio_stream \<Rightarrow> world \<Rightarrow> bytes \<times> world" where
  "read_stream u s w =
     (case s of
        UploadStream \<Rightarrow> read_upload u w
      | BytesIO b \<Rightarrow> (b, w))"

section \<open>The audio extraction adapter\<close>

text \<open>
  \<^verbatim>\<open>uploaded_file.filename or d\<close>: the file name, or \<open>d\<close> when the name is absent or empty.
\<close>

definition filename_or :: "string \<Rightarrow> UploadFile \<Rightarrow> string" where
  "filename_or d u =
     (case filename u of
        None \<Rightarrow> d
      | Some n \<Rightarrow> (if n = [] then d else n))"

text \<open>
  The decision taken at the head of \<^verbatim>\<open>extract_audio_stream\<close>: the lower-cased suffix of the
  file name is looked up in the list of formats the transcription API takes as they are.
\<close>

definition supported_extensions :: "string list" where
  "supported_extensions = [''.mp3'', ''.wav'', ''.m4a'', ''.flac'', ''.ogg'']"

definition file_extension :: "UploadFile \<Rightarrow> string" where
  "file_extension u = lower (suffix (filename_or [] u))"

definition already_supported :: "UploadFile \<Rightarrow> bool" where
  "already_supported u = (file_extension u \<in> set supported_extensions)"

text \<open>
  The body of the \<^verbatim>\<open>try\<close> block of \<^verbatim>\<open>_extract_audio_with_ffmpeg\<close>, run once both temporary
  files exist: read the upload, write it to the input file, run the transcoder, read the
  output file back and name the result. Its two handlers log and re-raise, so an exception
  leaves the block as it was raised.
\<close>

definition extract_body ::
  "env \<Rightarrow> UploadFile \<Rightarrow> string \<Rightarrow> string \<Rightarrow> world \<Rightarrow> (exn + audio_stream \<times> string) \<times> world" where
  "extract_body e u inp out w =
     (case read_upload u w of
        (content, w1) \<Rightarrow>
          (case write_input e of
             Some x \<Rightarrow> (Inl x, w1)
           | None \<Rightarrow>
               (let w2 = w1\<lparr>fs := (fs w1)(inp \<mapsto> content)\<rparr>;
                    w3 = w2\<lparr>calls := calls w2 @ [FFmpegRun inp out]\<rparr>
                in case ffmpeg_run e inp out (fs w2 inp) of
                     NotStarted x \<Rightarrow> (Inl x, w3)
                   | ToolError err \<Rightarrow> (Inl (FFmpegError err), w3)
                   | Completed audio \<Rightarrow>
                       (let w4 = w3\<lparr>fs := (fs w3)(out \<mapsto> audio)\<rparr>
                        in case fs w4 out of
                             None \<Rightarrow> (Inl (FileNotFoundError out), w4)
                           | Some audio_content \<Rightarrow>
                               (Inr (BytesIO audio_content,
                                     stem (filename_or ''audio'' u) @ ''.mp3''), w4)))))"

text \<open>
  \<^verbatim>\<open>_extract_audio_with_ffmpeg\<close>: the two temporary files are created one after the other by
  the two \<^verbatim>\<open>with\<close> statements, then the \<^verbatim>\<open>try\<close> block runs, and its \<^verbatim>\<open>finally\<close> clause unlinks
  the input path and then the output path. An exception raised by a \<^verbatim>\<open>with\<close> statement
  leaves the function before the \<^verbatim>\<open>try\<close> block is entered; an exception raised in the
  \<^verbatim>\<open>finally\<close> clause replaces the outcome of the block.
\<close>

definition extract_audio_with_ffmpeg ::
  "env \<Rightarrow> UploadFile \<Rightarrow> world \<Rightarrow> (exn + audio_stream \<times> string) \<times> world" where
  "extract_audio_with_ffmpeg e u w =
     (case NamedTemporaryFile (input_temp e) (suffix (filename_or [] u)) w of
        (Inl x, w1) \<Rightarrow> (Inl x, w1)
      | (Inr inp, w1) \<Rightarrow>
          (case NamedTemporaryFile (output_temp e) ''.mp3'' w1 of
             (Inl x, w2) \<Rightarrow> (Inl x, w2)
           | (Inr out, w2) \<Rightarrow>
               (case extract_body e u inp out w2 of
                  (r, w3) \<Rightarrow>
                    (case unlink inp w3 of
                       (Some x, w4) \<Rightarrow> (Inl x, w4)
                     | (None, w4) \<Rightarrow>
                         (case unlink out w4 of
                            (Some x, w5) \<Rightarrow> (Inl x, w5)
                          | (None, w5) \<Rightarrow> (r, w5))))))"

definition extract_audio_stream ::
  "env \<Rightarrow> UploadFile \<Rightarrow> world \<Rightarrow> (exn + audio_stream \<times> string) \<times> world" where
  "extract_audio_stream e u w =
     (if already_supported u
      then (Inr (UploadStream, filename_or ''audio'' u), seek 0 w)
      else extract_audio_with_ffmpeg e u w)"

section \<open>The transcription adapter and the service manager\<close>

text \<open>
  \<^verbatim>\<open>client.audio.transcriptions.create(model, file=(filename, stream), response_format="text")\<close>:
  the client reads the stream from its current position, sends what it read and returns the
  text, or raises. No rewinding by the client is assumed: what is sent depends on where the
  adapters left the stream.
\<close>

definition transcriptions_create ::
  "env \<Rightarrow> UploadFile \<Rightarrow> string \<Rightarrow> string \<Rightarrow> audio_stream \<Rightarrow> world \<Rightarrow> (exn + string) \<times> world" where
  "transcriptions_create e u model fname s w =
     (case read_stream u s w of
        (sent, w1) \<Rightarrow>
          (whisper e model fname sent,
           w1\<lparr>calls := calls w1 @ [TranscriptionsCreate model fname s sent]\<rparr>))"

datatype FFmpegAudioExtractionAdapter = FFmpegAudioExtractionAdapter

record OpenAITranscriptionAdapter =
  audio_extraction_service :: "FFmpegAudioExtractionAdapter option"

text \<open>
  \<^verbatim>\<open>transcribe_from_upload\<close> in two steps. First the audio is chosen: by the extraction
  service when one was injected, and otherwise the upload itself, rewound, under its own
  name. Then the audio is sent. The handler of the enclosing \<^verbatim>\<open>try\<close> logs and re-raises.
\<close>

definition extraction_or_fallback ::
  "env \<Rightarrow> OpenAITranscriptionAdapter \<Rightarrow> UploadFile \<Rightarrow> world \<Rightarrow> (exn + audio_stream \<times> string) \<times> world" where
  "extraction_or_fallback e a u w =
     (case audio_extraction_service a of
        Some svc \<Rightarrow> extract_audio_stream e u w
      | None \<Rightarrow> (Inr (UploadStream, filename_or ''audio'' u), seek 0 w))"

definition transcribe_from_upload ::
  "env \<Rightarrow> OpenAITranscriptionAdapter \<Rightarrow> UploadFile \<Rightarrow> string \<Rightarrow> world \<Rightarrow> (exn + string) \<times> world" where
  "transcribe_from_upload e a u model w =
     (case extraction_or_fallback e a u w of
        (Inl x, w1) \<Rightarrow> (Inl x, w1)
      | (Inr (audio, fname), w1) \<Rightarrow> transcriptions_create e u model fname audio w1)"

definition ServiceManager_transcribe_media ::
  "env \<Rightarrow> OpenAITranscriptionAdapter \<Rightarrow> UploadFile \<Rightarrow> string \<Rightarrow> world \<Rightarrow> (exn + string) \<times> world" where
  "ServiceManager_transcribe_media e a u model w =
     transcribe_from_upload e a u model (w\<lparr>calls := calls w @ [ServiceManagerCall]\<rparr>)"

text \<open>The wiring done by \<^verbatim>\<open>bootstrap_app\<close>: the transcription adapter gets the FFmpeg adapter.\<close>

definition bootstrap_adapter :: OpenAITranscriptionAdapter where
  "bootstrap_adapter = \<lparr>audio_extraction_service = Some FFmpegAudioExtractionAdapter\<rparr>"

section \<open>The HTTP endpoints\<close>

datatype pyval = Str string | Bool bool

type_synonym pydict = "(string \<times> pyval) list"

datatype TranscriptionResponse = TranscriptionResponse string bool

datatype ErrorResponse = ErrorResponse bool string

text \<open>
  The two response models of \<^verbatim>\<open>dtos.py\<close> with their field defaults
  (\<^verbatim>\<open>success=True\<close>, \<^verbatim>\<open>success=False\<close>), and \<^verbatim>\<open>model_dump\<close>, which lists the fields in the order
  of declaration.
\<close>

definition new_TranscriptionResponse :: "string \<Rightarrow> TranscriptionResponse" where
  "new_TranscriptionResponse t = TranscriptionResponse t True"

definition new_ErrorResponse :: "string \<Rightarrow> ErrorResponse" where
  "new_ErrorResponse msg = ErrorResponse False msg"

fun model_dump :: "ErrorResponse \<Rightarrow> pydict" where
  "model_dump (ErrorResponse s msg) = [(''success'', Bool s), (''error'', Str msg)]"

fun model_dump_transcription :: "TranscriptionResponse \<Rightarrow> pydict" where
  "model_dump_transcription (TranscriptionResponse t s) =
     [(''transcription'', Str t), (''success'', Bool s)]"

text \<open>
  What the path function \<^verbatim>\<open>transcribe_media\<close> can return: a pair of a dictionary and a number,
  a \<^verbatim>\<open>TranscriptionResponse\<close>, or a \<^verbatim>\<open>JSONResponse\<close> with its status code and content.
\<close>

datatype handler_return =
    ReturnTuple pydict int
  | ReturnModel TranscriptionResponse
  | ReturnJSONResponse int pydict

text \<open>
  The arguments of a call of the path function: the upload, and the argument bound to the
  parameter \<^verbatim>\<open>model\<close>, which is \<open>None\<close> when the call leaves the parameter to its default
  \<^verbatim>\<open>whisper-1\<close>. Which argument a request binds is decided by \<open>bind_model_form\<close> below.
\<close>

record transcribe_request =
  upload :: UploadFile
  model_field :: "string option"

definition content_type_rejected :: "UploadFile \<Rightarrow> bool" where
  "content_type_rejected u =
     (case content_type u of
        None \<Rightarrow> True
      | Some t \<Rightarrow> t = [] \<or> \<not> (startswith t ''audio/'' \<or> startswith t ''video/''))"

definition transcribe_media ::
  "env \<Rightarrow> OpenAITranscriptionAdapter \<Rightarrow> transcribe_request \<Rightarrow> world \<Rightarrow> handler_return \<times> world" where
  "transcribe_media e a req w =
     (let model = (case model_field req of None \<Rightarrow> ''whisper-1'' | Some m \<Rightarrow> m)
      in if content_type_rejected (upload req)
         then (ReturnTuple [(''msg'', Str ''El archivo debe ser de tipo audio o video'')] 400, w)
         else (case ServiceManager_transcribe_media e a (upload req) model w of
                 (Inr transcription, w1) \<Rightarrow>
                   (ReturnModel (new_TranscriptionResponse transcription), w1)
               | (Inl x, w1) \<Rightarrow>
                   (ReturnJSONResponse 500
                      (model_dump (new_ErrorResponse ''Error interno del servidor'')), w1)))"

definition health_check :: "world \<Rightarrow> pydict \<times> world" where
  "health_check w = ([(''status'', Str ''healthy'')], w)"

text \<open>
  The web framework (FastAPI, a dependency of the service and not part of its sources) turns
  the value returned by a path function into an HTTP response. A
  \<^verbatim>\<open>Response\<close> object is sent as it is. Any other value is validated against the response
  model of the route and sent with the status code of the route, 200 for both routes; a
  value that is not of the response model (here: the pair) makes the framework raise a
  response validation error, which the server answers with status 500 and the plain text
  \<^verbatim>\<open>Internal Server Error\<close>. The framework never reads a status code out of a returned pair.
\<close>

text \<open>
  The framework also binds the parameters of the path function from the request. The
  parameter \<^verbatim>\<open>model\<close> is declared as a form field with a default: a request that omits the
  field, or supplies it with the empty string, leaves the parameter to its default, and the
  value of any other request is bound as it is. \<open>post_transcribe\<close> is the handling of a
  request to the transcribe endpoint, given its upload and its form field (\<open>None\<close> when the
  field is omitted).
\<close>

definition bind_model_form :: "string option \<Rightarrow> string option" where
  "bind_model_form f =
     (case f of
        None \<Rightarrow> None
      | Some v \<Rightarrow> (if v = [] then None else Some v))"

definition post_transcribe ::
  "env \<Rightarrow> OpenAITranscriptionAdapter \<Rightarrow> UploadFile \<Rightarrow> string option \<Rightarrow> world
     \<Rightarrow> handler_return \<times> world" where
  "post_transcribe e a u f w =
     transcribe_media e a \<lparr>upload = u, model_field = bind_model_form f\<rparr> w"

datatype http_body = JSON pydict | PlainText string

record http_response =
  status_code :: int
  body :: http_body

definition transcribe_route_response :: "handler_return \<Rightarrow> http_response" where
  "transcribe_route_response r =
     (case r of
        ReturnJSONResponse code content \<Rightarrow> \<lparr>status_code = code, body = JSON content\<rparr>
      | ReturnModel m \<Rightarrow> \<lparr>status_code = 200, body = JSON (model_dump_transcription m)\<rparr>
      | ReturnTuple d n \<Rightarrow> \<lparr>status_code = 500, body = PlainText ''Internal Server Error''\<rparr>)"

definition health_route_response :: "pydict \<Rightarrow> http_response" where
  "health_route_response d =
     (if list_all (\<lambda>(k, v). case v of Str s \<Rightarrow> True | Bool b \<Rightarrow> False) d
      then \<lparr>status_code = 200, body = JSON d\<rparr>
      else \<lparr>status_code = 500, body = PlainText ''Internal Server Error''\<rparr>)"

section \<open>Observations and example values\<close>

text \<open>The models named by the requests to the remote API found in a list of calls.\<close>

fun api_models :: "event list \<Rightarrow> string list" where
  "api_models [] = []"
| "api_models (TranscriptionsCreate m f s b # evs) = m # api_models evs"
| "api_models (ev # evs) = api_models evs"

text \<open>
  A state with no files and no calls, an environment in which every external operation
  succeeds, and three uploads.
\<close>

definition quiet_world :: world where
  "quiet_world = \<lparr>fs = Map.empty, upload_pos = 0, calls = []\<rparr>"

definition working_env :: env where
  "working_env =
     \<lparr>input_temp = Inr ''/tmp/tmpk3v9in'',
      output_temp = Inr ''/tmp/tmpq7x2out'',
      write_input = None,
      ffmpeg_run = (\<lambda>inp out b. Completed [0x49, 0x44, 0x33]),
      whisper = (\<lambda>model fname sent. Inr ''hola mundo'')\<rparr>"

definition clip_upload :: UploadFile where
  "clip_upload =
     \<lparr>filename = Some ''clip.mp4'', content_type = Some ''video/mp4'', file_bytes = [0, 0, 0, 0x18]\<rparr>"

definition voice_upload :: UploadFile where
  "voice_upload =
     \<lparr>filename = Some ''Voice.MP3'', content_type = Some ''audio/mpeg'', file_bytes = [0xFF, 0xFB, 0x90]\<rparr>"

definition pdf_upload :: UploadFile where
  "pdf_upload =
     \<lparr>filename = Some ''paper.pdf'', content_type = Some ''application/pdf'',
      file_bytes = [0x25, 0x50, 0x44, 0x46]\<rparr>"

section \<open>Facts about the library functions\<close>

lemma rfind_None_iff: "rfind d s = None \<longleftrightarrow> d \<notin> set s"
  by (induction s) (auto split: option.splits)

lemma rfind_append_last: "d \<notin> set ys \<Longrightarrow> rfind d (xs @ d # ys) = Some (length xs)"
proof (induction xs)
  case Nil
  then have "rfind d ys = None" by (simp add: rfind_None_iff)
  then show ?case by simp
next
  case (Cons x xs)
  then show ?case by simp
qed

lemma rfind_SomeD:
  "rfind d s = Some i \<Longrightarrow> \<exists>xs ys. s = xs @ d # ys \<and> d \<notin> set ys \<and> length xs = i"
proof (induction s arbitrary: i)
  case Nil
  then show ?case by simp
next
  case (Cons c cs)
  show ?case
  proof (cases "rfind d cs")
    case None
    with Cons.prems have "c = d" and "i = 0" by (auto split: if_splits)
    moreover from None have "d \<notin> set cs" by (simp add: rfind_None_iff)
    ultimately have "c # cs = [] @ d # cs \<and> d \<notin> set cs \<and> length ([]::string) = i" by simp
    then show ?thesis by blast
  next
    case (Some j)
    with Cons.prems have i: "i = Suc j" by simp
    from Cons.IH [OF Some] obtain xs ys where "cs = xs @ d # ys" "d \<notin> set ys" "length xs = j"
      by blast
    with i have "c # cs = (c # xs) @ d # ys \<and> d \<notin> set ys \<and> length (c # xs) = i" by simp
    then show ?thesis by blast
  qed
qed

text \<open>
  A name has a suffix exactly when it is a non-empty stem, a dot and a non-empty extension
  without a dot; the suffix is then the dot with the extension, and the stem is the stem.
\<close>

lemma name_suffix_split:
  assumes "st \<noteq> []" and "ext \<noteq> []" and "CHR ''.'' \<notin> set ext"
  shows "name_suffix (st @ CHR ''.'' # ext) = CHR ''.'' # ext"
    and "name_stem (st @ CHR ''.'' # ext) = st"
  using assms by (simp_all add: name_suffix_def name_stem_def rfind_append_last)

lemma name_suffix_nonemptyD:
  assumes "name_suffix n \<noteq> []"
  shows "\<exists>st ext. n = st @ CHR ''.'' # ext \<and> st \<noteq> [] \<and> ext \<noteq> [] \<and> CHR ''.'' \<notin> set ext
           \<and> name_suffix n = CHR ''.'' # ext"
proof -
  from assms obtain i where i: "rfind CHR ''.'' n = Some i" and bounds: "0 < i" "i < length n - 1"
    by (auto simp: name_suffix_def split: option.splits if_splits)
  from rfind_SomeD [OF i] obtain st ext
    where n: "n = st @ CHR ''.'' # ext" and nodot: "CHR ''.'' \<notin> set ext" and len: "length st = i"
    by blast
  from bounds len n have "st \<noteq> []" and "ext \<noteq> []" by auto
  with n nodot show ?thesis using name_suffix_split(1) by blast
qed

lemma lower_Cons_dot: "lower (CHR ''.'' # s) = CHR ''.'' # lower s"
  by (simp add: lower_def lower_char_def)

lemma suffix_empty: "suffix [] = []"
  by (simp add: suffix_def path_name_def name_suffix_def)

lemma stem_audio: "stem ''audio'' = ''audio''"
  by (simp add: stem_def path_name_def name_stem_def)

lemma api_models_append: "api_models (xs @ ys) = api_models xs @ api_models ys"
  by (induction xs rule: api_models.induct) simp_all

section \<open>The media prober\<close>

lemma supported_by_extension:
  "already_supported u \<longleftrightarrow>
     (\<exists>st ext. path_name (filename_or [] u) = st @ ''.'' @ ext \<and> st \<noteq> [] \<and> CHR ''.'' \<notin> set ext
        \<and> lower ext \<in> {''mp3'', ''wav'', ''m4a'', ''flac'', ''ogg''})"
proof
  assume "already_supported u"
  then have mem: "lower (name_suffix (path_name (filename_or [] u))) \<in> set supported_extensions"
    by (simp add: already_supported_def file_extension_def suffix_def)
  then have "name_suffix (path_name (filename_or [] u)) \<noteq> []"
    by (auto simp: supported_extensions_def lower_def)
  from name_suffix_nonemptyD [OF this] obtain st ext
    where n: "path_name (filename_or [] u) = st @ CHR ''.'' # ext" "st \<noteq> []" "CHR ''.'' \<notin> set ext"
      and sfx: "name_suffix (path_name (filename_or [] u)) = CHR ''.'' # ext"
    by blast
  from mem sfx have "lower ext \<in> {''mp3'', ''wav'', ''m4a'', ''flac'', ''ogg''}"
    by (simp add: lower_Cons_dot supported_extensions_def)
  with n show "\<exists>st ext. path_name (filename_or [] u) = st @ ''.'' @ ext \<and> st \<noteq> [] \<and> CHR ''.'' \<notin> set ext
        \<and> lower ext \<in> {''mp3'', ''wav'', ''m4a'', ''flac'', ''ogg''}"
    by auto
next
  assume "\<exists>st ext. path_name (filename_or [] u) = st @ ''.'' @ ext \<and> st \<noteq> [] \<and> CHR ''.'' \<notin> set ext
        \<and> lower ext \<in> {''mp3'', ''wav'', ''m4a'', ''flac'', ''ogg''}"
  then obtain st ext
    where n: "path_name (filename_or [] u) = st @ CHR ''.'' # ext" and st: "st \<noteq> []"
      and nodot: "CHR ''.'' \<notin> set ext"
      and low: "lower ext \<in> {''mp3'', ''wav'', ''m4a'', ''flac'', ''ogg''}"
    by auto
  from low have "ext \<noteq> []" by (auto simp: lower_def)
  with n st nodot have "name_suffix (path_name (filename_or [] u)) = CHR ''.'' # ext"
    by (simp add: name_suffix_split(1))
  with low show "already_supported u"
    by (auto simp: already_supported_def file_extension_def suffix_def lower_Cons_dot
        supported_extensions_def)
qed

lemma supported_has_name:
  assumes "already_supported u"
  shows "\<exists>n. filename u = Some n \<and> n \<noteq> [] \<and> filename_or d u = n"
proof -
  have "filename_or [] u \<noteq> []"
  proof
    assume "filename_or [] u = []"
    with assms show False
      by (simp add: already_supported_def file_extension_def suffix_empty lower_def
          supported_extensions_def)
  qed
  then show ?thesis
    by (cases "filename u") (auto simp: filename_or_def split: if_splits)
qed

text \<open>
  C3. The prober is the test at the head of \<open>extract_audio_stream\<close>. An upload is classified
  as already supported exactly when the lower-cased suffix of its file name is one of
  \<^verbatim>\<open>.mp3\<close>, \<^verbatim>\<open>.wav\<close>, \<^verbatim>\<open>.m4a\<close>, \<^verbatim>\<open>.flac\<close>, \<^verbatim>\<open>.ogg\<close>, that is, exactly when the last component of
  the name is a non-empty stem, a dot and one of the five extensions in any mix of upper and
  lower case. Every other upload needs transcoding and takes the FFmpeg path, in particular
  one whose name has no suffix. The classification is a function of the file name alone: two
  uploads with the same name are classified alike whatever their content type and bytes, and
  it neither reads nor changes the state.
\<close>

theorem media_prober_classification:
  "(already_supported u \<longleftrightarrow>
      lower (suffix (filename_or [] u)) \<in> {''.mp3'', ''.wav'', ''.m4a'', ''.flac'', ''.ogg''})
   \<and> (already_supported u \<longleftrightarrow>
        (\<exists>st ext. path_name (filename_or [] u) = st @ ''.'' @ ext \<and> st \<noteq> []
           \<and> CHR ''.'' \<notin> set ext
           \<and> lower ext \<in> {''mp3'', ''wav'', ''m4a'', ''flac'', ''ogg''}))
   \<and> (suffix (filename_or [] u) = [] \<longrightarrow> \<not> already_supported u)
   \<and> (\<not> already_supported u \<longrightarrow> extract_audio_stream e u w = extract_audio_with_ffmpeg e u w)
   \<and> (filename u = filename v \<longrightarrow> already_supported u = already_supported v)"
proof -
  have a: "already_supported u \<longleftrightarrow>
      lower (suffix (filename_or [] u)) \<in> {''.mp3'', ''.wav'', ''.m4a'', ''.flac'', ''.ogg''}"
    by (simp add: already_supported_def file_extension_def supported_extensions_def)
  have b: "suffix (filename_or [] u) = [] \<longrightarrow> \<not> already_supported u"
    by (simp add: a lower_def)
  have c: "\<not> already_supported u \<longrightarrow> extract_audio_stream e u w = extract_audio_with_ffmpeg e u w"
    by (simp add: extract_audio_stream_def)
  have d: "filename u = filename v \<longrightarrow> already_supported u = already_supported v"
    by (simp add: already_supported_def file_extension_def filename_or_def)
  from a b c d supported_by_extension [of u] show ?thesis by blast
qed

theorem media_prober_classification_witness:
  "already_supported voice_upload
   \<and> already_supported (voice_upload\<lparr>content_type := Some ''application/pdf'', file_bytes := []\<rparr>)
   \<and> suffix (filename_or [] (voice_upload\<lparr>filename := Some ''README''\<rparr>)) = []
   \<and> \<not> already_supported (voice_upload\<lparr>filename := Some ''README''\<rparr>)
   \<and> \<not> already_supported clip_upload
   \<and> extract_audio_stream working_env clip_upload quiet_world
       = extract_audio_with_ffmpeg working_env clip_upload quiet_world"
proof -
  have v: "lower (suffix (filename_or [] voice_upload)) = ''.mp3''"
    by (simp add: voice_upload_def filename_or_def suffix_def path_name_def name_suffix_def
        lower_def lower_char_def)
  have r: "suffix (filename_or [] (voice_upload\<lparr>filename := Some ''README''\<rparr>)) = []"
    by (simp add: filename_or_def suffix_def path_name_def name_suffix_def)
  have c: "lower (suffix (filename_or [] clip_upload)) = ''.mp4''"
    by (simp add: clip_upload_def filename_or_def suffix_def path_name_def name_suffix_def
        lower_def lower_char_def)
  have same: "filename voice_upload
      = filename (voice_upload\<lparr>content_type := Some ''application/pdf'', file_bytes := []\<rparr>)"
    by simp
  note voice = media_prober_classification [of voice_upload working_env quiet_world
      "voice_upload\<lparr>content_type := Some ''application/pdf'', file_bytes := []\<rparr>"]
  note readme = media_prober_classification [of "voice_upload\<lparr>filename := Some ''README''\<rparr>"
      working_env quiet_world voice_upload]
  note clip = media_prober_classification [of clip_upload working_env quiet_world clip_upload]
  from voice v have s1: "already_supported voice_upload" by simp
  from voice same s1
  have s2: "already_supported (voice_upload\<lparr>content_type := Some ''application/pdf'', file_bytes := []\<rparr>)"
    by blast
  from readme r have s3: "\<not> already_supported (voice_upload\<lparr>filename := Some ''README''\<rparr>)"
    by blast
  from clip c have s4: "\<not> already_supported clip_upload" by simp
  from clip s4 have s5: "extract_audio_stream working_env clip_upload quiet_world
       = extract_audio_with_ffmpeg working_env clip_upload quiet_world"
    by blast
  from s1 s2 r s3 s4 s5 show ?thesis by blast
qed

section \<open>The transcoding path\<close>

lemma NamedTemporaryFile_InrD:
  assumes "NamedTemporaryFile choice sfx w = (Inr p, w1)"
  shows "fs w p = None"
    and "w1 = w\<lparr>fs := (fs w)(p \<mapsto> []), calls := calls w @ [TempFile p]\<rparr>"
    and "\<exists>base. choice = Inr base \<and> p = base @ sfx"
  using assms by (auto simp: NamedTemporaryFile_def split: sum.splits option.splits)

lemma NamedTemporaryFile_InlD:
  assumes "NamedTemporaryFile choice sfx w = (Inl x, w1)"
  shows "w1 = w"
  using assms by (auto simp: NamedTemporaryFile_def split: sum.splits option.splits)

lemma NamedTemporaryFile_fresh:
  "fs w (base @ sfx) = None \<Longrightarrow>
   NamedTemporaryFile (Inr base) sfx w
     = (Inr (base @ sfx), w\<lparr>fs := (fs w)(base @ sfx \<mapsto> []), calls := calls w @ [TempFile (base @ sfx)]\<rparr>)"
  by (simp add: NamedTemporaryFile_def)

lemma extract_body_fs:
  assumes "extract_body e u inp out w = (r, w')" and "fs w inp \<noteq> None" and "fs w out \<noteq> None"
  shows "fs w' inp \<noteq> None" and "fs w' out \<noteq> None"
    and "p \<noteq> inp \<Longrightarrow> p \<noteq> out \<Longrightarrow> fs w' p = fs w p"
  using assms
  by (auto simp: extract_body_def read_upload_def Let_def
      split: option.splits ffmpeg_outcome.splits if_splits)

lemma extract_body_calls:
  assumes "extract_body e u inp out w = (r, w')"
  shows "calls w' = calls w \<or> calls w' = calls w @ [FFmpegRun inp out]"
  using assms
  by (auto simp: extract_body_def read_upload_def Let_def
      split: option.splits ffmpeg_outcome.splits if_splits)

lemma extract_body_InrD:
  assumes "extract_body e u inp out w = (Inr (s, n), w')"
  shows "n = stem (filename_or ''audio'' u) @ ''.mp3''"
    and "\<exists>audio. ffmpeg_run e inp out (Some (drop (upload_pos w) (file_bytes u))) = Completed audio
           \<and> s = BytesIO audio"
  using assms
  by (auto simp: extract_body_def read_upload_def Let_def
      split: option.splits ffmpeg_outcome.splits if_splits)

lemma extract_body_Completed:
  assumes "write_input e = None"
    and "ffmpeg_run e inp out (Some (drop (upload_pos w) (file_bytes u))) = Completed audio"
  shows "fst (extract_body e u inp out w)
           = Inr (BytesIO audio, stem (filename_or ''audio'' u) @ ''.mp3'')"
  using assms by (simp add: extract_body_def read_upload_def Let_def)

lemma unlink_existing: "fs w p = Some b \<Longrightarrow> unlink p w = (None, w\<lparr>fs := (fs w)(p := None)\<rparr>)"
  by (simp add: unlink_def)

lemma cleanup_after_acquisition:
  assumes inp: "NamedTemporaryFile (input_temp e) (suffix (filename_or [] u)) w = (Inr inp, w1)"
    and out: "NamedTemporaryFile (output_temp e) ''.mp3'' w1 = (Inr out, w2)"
  shows "fs (snd (extract_audio_with_ffmpeg e u w)) = fs w"
    and "fst (extract_audio_with_ffmpeg e u w) = fst (extract_body e u inp out w2)"
    and "calls (snd (extract_audio_with_ffmpeg e u w)) = calls (snd (extract_body e u inp out w2))"
proof -
  obtain r w3 where body: "extract_body e u inp out w2 = (r, w3)"
    by (cases "extract_body e u inp out w2")
  note i = NamedTemporaryFile_InrD [OF inp] and o = NamedTemporaryFile_InrD [OF out]
  from i(2) o(1) have ne: "out \<noteq> inp" by (auto split: if_splits)
  from i(2) o(2) have "fs w2 inp \<noteq> None" and "fs w2 out \<noteq> None" using ne by auto
  note b = extract_body_fs [OF body this]
  from b(1) obtain bi where bi: "fs w3 inp = Some bi" by blast
  from b(2) obtain bo where bo: "fs w3 out = Some bo" by blast
  have u1: "unlink inp w3 = (None, w3\<lparr>fs := (fs w3)(inp := None)\<rparr>)"
    using bi by (rule unlink_existing)
  have u2: "unlink out (w3\<lparr>fs := (fs w3)(inp := None)\<rparr>)
              = (None, w3\<lparr>fs := (fs w3)(inp := None, out := None)\<rparr>)"
    using bo ne by (simp add: unlink_def)
  have res: "extract_audio_with_ffmpeg e u w = (r, w3\<lparr>fs := (fs w3)(inp := None, out := None)\<rparr>)"
    by (simp add: extract_audio_with_ffmpeg_def inp out body u1 u2)
  have "(fs w3)(inp := None, out := None) = fs w"
  proof
    fix p
    show "((fs w3)(inp := None, out := None)) p = fs w p"
    proof (cases "p = inp \<or> p = out")
      case True
      then show ?thesis using i(1) i(2) o(1) ne by (auto split: if_splits)
    next
      case False
      then have "fs w3 p = fs w2 p" using b(3) by blast
      with False show ?thesis using i(2) o(2) by simp
    qed
  qed
  with res show "fs (snd (extract_audio_with_ffmpeg e u w)) = fs w" by simp
  from res body show "fst (extract_audio_with_ffmpeg e u w) = fst (extract_body e u inp out w2)" by simp
  from res body show "calls (snd (extract_audio_with_ffmpeg e u w)) = calls (snd (extract_body e u inp out w2))" by simp
qed

lemma extract_audio_with_ffmpeg_InrD:
  assumes ok: "extract_audio_with_ffmpeg e u w = (Inr (s, n), w')"
  shows "n = stem (filename_or ''audio'' u) @ ''.mp3''"
    and "\<exists>bi bo audio. input_temp e = Inr bi \<and> output_temp e = Inr bo
           \<and> ffmpeg_run e (bi @ suffix (filename_or [] u)) (bo @ ''.mp3'')
                (Some (drop (upload_pos w) (file_bytes u))) = Completed audio
           \<and> s = BytesIO audio"
    and "fs w' = fs w"
proof -
  obtain r1 w1 where c1: "NamedTemporaryFile (input_temp e) (suffix (filename_or [] u)) w = (r1, w1)"
    by (cases "NamedTemporaryFile (input_temp e) (suffix (filename_or [] u)) w")
  from ok c1 obtain inp where r1: "r1 = Inr inp"
    by (cases r1) (auto simp: extract_audio_with_ffmpeg_def)
  obtain r2 w2 where c2: "NamedTemporaryFile (output_temp e) ''.mp3'' w1 = (r2, w2)"
    by (cases "NamedTemporaryFile (output_temp e) ''.mp3'' w1")
  from ok c1 r1 c2 obtain out where r2: "r2 = Inr out"
    by (cases r2) (auto simp: extract_audio_with_ffmpeg_def)
  note c = cleanup_after_acquisition [OF c1 [unfolded r1] c2 [unfolded r2]]
  obtain w3 where body: "extract_body e u inp out w2 = (Inr (s, n), w3)"
    using c(2) ok by (cases "extract_body e u inp out w2") simp
  note i = NamedTemporaryFile_InrD [OF c1 [unfolded r1]]
    and o = NamedTemporaryFile_InrD [OF c2 [unfolded r2]]
  from i(2) o(2) have pos: "upload_pos w2 = upload_pos w" by simp
  from extract_body_InrD(1) [OF body] show "n = stem (filename_or ''audio'' u) @ ''.mp3''" .
  from extract_body_InrD(2) [OF body] i(3) o(3) pos
  show "\<exists>bi bo audio. input_temp e = Inr bi \<and> output_temp e = Inr bo
           \<and> ffmpeg_run e (bi @ suffix (filename_or [] u)) (bo @ ''.mp3'')
                (Some (drop (upload_pos w) (file_bytes u))) = Completed audio
           \<and> s = BytesIO audio"
    by auto
  from c(1) ok show "fs w' = fs w" by simp
qed

lemma extract_audio_with_ffmpeg_success:
  assumes "input_temp e = Inr bi" and "output_temp e = Inr bo" and "write_input e = None"
    and "fs w (bi @ suffix (filename_or [] u)) = None" and "fs w (bo @ ''.mp3'') = None"
    and "bi @ suffix (filename_or [] u) \<noteq> bo @ ''.mp3''"
    and "ffmpeg_run e (bi @ suffix (filename_or [] u)) (bo @ ''.mp3'')
           (Some (drop (upload_pos w) (file_bytes u))) = Completed audio"
  shows "fst (extract_audio_with_ffmpeg e u w)
           = Inr (BytesIO audio, stem (filename_or ''audio'' u) @ ''.mp3'')"
proof -
  let ?inp = "bi @ suffix (filename_or [] u)" and ?out = "bo @ ''.mp3''"
  let ?w1 = "w\<lparr>fs := (fs w)(?inp \<mapsto> []), calls := calls w @ [TempFile ?inp]\<rparr>"
  let ?w2 = "?w1\<lparr>fs := (fs ?w1)(?out \<mapsto> []), calls := calls ?w1 @ [TempFile ?out]\<rparr>"
  have c1: "NamedTemporaryFile (input_temp e) (suffix (filename_or [] u)) w = (Inr ?inp, ?w1)"
    using assms(1,4) by (simp add: NamedTemporaryFile_fresh)
  have "fs ?w1 ?out = None" using assms(5,6) by simp
  then have c2: "NamedTemporaryFile (output_temp e) ''.mp3'' ?w1 = (Inr ?out, ?w2)"
    using assms(2) NamedTemporaryFile_fresh [of ?w1 bo "''.mp3''"] by simp
  have "upload_pos ?w2 = upload_pos w" by simp
  with assms(3,7) have "fst (extract_body e u ?inp ?out ?w2)
      = Inr (BytesIO audio, stem (filename_or ''audio'' u) @ ''.mp3'')"
    by (simp add: extract_body_Completed)
  with cleanup_after_acquisition(2) [OF c1 c2] show ?thesis by simp
qed

lemma extract_audio_with_ffmpeg_calls:
  "\<exists>evs. calls (snd (extract_audio_with_ffmpeg e u w)) = calls w @ evs \<and> api_models evs = []"
proof -
  obtain r1 w1 where c1: "NamedTemporaryFile (input_temp e) (suffix (filename_or [] u)) w = (r1, w1)"
    by (cases "NamedTemporaryFile (input_temp e) (suffix (filename_or [] u)) w")
  show ?thesis
  proof (cases r1)
    case (Inl x)
    with c1 have "w1 = w" by (simp add: NamedTemporaryFile_InlD)
    with c1 Inl have "calls (snd (extract_audio_with_ffmpeg e u w)) = calls w @ []"
      by (simp add: extract_audio_with_ffmpeg_def)
    then show ?thesis by (metis api_models.simps(1))
  next
    case (Inr inp)
    note i = NamedTemporaryFile_InrD [OF c1 [unfolded Inr]]
    obtain r2 w2 where c2: "NamedTemporaryFile (output_temp e) ''.mp3'' w1 = (r2, w2)"
      by (cases "NamedTemporaryFile (output_temp e) ''.mp3'' w1")
    show ?thesis
    proof (cases r2)
      case (Inl x)
      with c2 have "w2 = w1" by (simp add: NamedTemporaryFile_InlD)
      with c1 \<open>r1 = Inr inp\<close> c2 Inl i(2)
      have "calls (snd (extract_audio_with_ffmpeg e u w)) = calls w @ [TempFile inp]"
        by (simp add: extract_audio_with_ffmpeg_def)
      moreover have "api_models [TempFile inp] = []" by simp
      ultimately show ?thesis by blast
    next
      case (Inr out)
      note o = NamedTemporaryFile_InrD [OF c2 [unfolded Inr]]
      obtain r w3 where body: "extract_body e u inp out w2 = (r, w3)"
        by (cases "extract_body e u inp out w2")
      from cleanup_after_acquisition(3) [OF c1 [unfolded \<open>r1 = Inr inp\<close>] c2 [unfolded Inr]] body
      have "calls (snd (extract_audio_with_ffmpeg e u w)) = calls w3" by simp
      with extract_body_calls [OF body] i(2) o(2)
      have "calls (snd (extract_audio_with_ffmpeg e u w)) = calls w @ [TempFile inp, TempFile out]
          \<or> calls (snd (extract_audio_with_ffmpeg e u w))
              = calls w @ [TempFile inp, TempFile out, FFmpegRun inp out]"
        by auto
      moreover have "api_models [TempFile inp, TempFile out] = []"
        and "api_models [TempFile inp, TempFile out, FFmpegRun inp out] = []" by simp_all
      ultimately show ?thesis by blast
    qed
  qed
qed

text \<open>
  Once both temporary files exist, the \<^verbatim>\<open>finally\<close> clause removes them whatever the
  \<^verbatim>\<open>try\<close> block did: the file system is afterwards what it was before the call.
\<close>

lemma both_temps_removed:
  assumes inp: "NamedTemporaryFile (input_temp e) (suffix (filename_or [] u)) w = (Inr inp, w1)"
    and out: "NamedTemporaryFile (output_temp e) ''.mp3'' w1 = (Inr out, w2)"
  shows "fs (snd (extract_audio_with_ffmpeg e u w)) inp = None
       \<and> fs (snd (extract_audio_with_ffmpeg e u w)) out = None"
proof -
  note i = NamedTemporaryFile_InrD [OF inp] and o = NamedTemporaryFile_InrD [OF out]
  from i(2) o(1) have "fs w out = None" by (auto split: if_splits)
  with i(1) cleanup_after_acquisition(1) [OF inp out] show ?thesis by simp
qed

text \<open>
  The second \<^verbatim>\<open>with\<close> statement is outside the \<^verbatim>\<open>try\<close> block. When it raises, the
  \<^verbatim>\<open>finally\<close> clause is never reached and the input file, created with \<^verbatim>\<open>delete=False\<close>,
  stays on disk.
\<close>

lemma output_temp_failure:
  assumes "input_temp e = Inr bi" and "fs w (bi @ suffix (filename_or [] u)) = None"
    and "output_temp e = Inl x"
  shows "extract_audio_with_ffmpeg e u w
           = (Inl x, w\<lparr>fs := (fs w)(bi @ suffix (filename_or [] u) \<mapsto> []),
                       calls := calls w @ [TempFile (bi @ suffix (filename_or [] u))]\<rparr>)"
  using assms by (simp add: extract_audio_with_ffmpeg_def NamedTemporaryFile_def)

lemma clip_names: "suffix (filename_or [] clip_upload) = ''.mp4''"
  "stem (filename_or ''audio'' clip_upload) = ''clip''"
  by (simp_all add: clip_upload_def filename_or_def suffix_def stem_def path_name_def
      name_suffix_def name_stem_def)

text \<open>
  C2. The claim is that the input and the output temporary file are gone on every exit path
  of the transcoding path. The code does this on every path that enters the \<^verbatim>\<open>try\<close> block
  (\<open>both_temps_removed\<close>), but not when the creation of the output file fails after the
  input file was created: for the upload \<^verbatim>\<open>clip.mp4\<close>, in a state without files and an
  environment in which the second \<^verbatim>\<open>NamedTemporaryFile\<close> raises \<^verbatim>\<open>OSError\<close>, the call re-raises
  that error and the input file \<^verbatim>\<open>/tmp/tmpk3v9in.mp4\<close>, which did not exist before, exists
  after the call.
\<close>

theorem input_temp_left_when_output_temp_fails:
  "fs quiet_world ''/tmp/tmpk3v9in.mp4'' = None
   \<and> fst (extract_audio_with_ffmpeg
            (working_env\<lparr>output_temp := Inl (OSError ''[Errno 24] Too many open files'')\<rparr>)
            clip_upload quiet_world)
       = Inl (OSError ''[Errno 24] Too many open files'')
   \<and> fs (snd (extract_audio_with_ffmpeg
                (working_env\<lparr>output_temp := Inl (OSError ''[Errno 24] Too many open files'')\<rparr>)
                clip_upload quiet_world)) ''/tmp/tmpk3v9in.mp4''
       = Some []"
proof -
  let ?e = "working_env\<lparr>output_temp := Inl (OSError ''[Errno 24] Too many open files'')\<rparr>"
  have "input_temp ?e = Inr ''/tmp/tmpk3v9in''"
    and "output_temp ?e = Inl (OSError ''[Errno 24] Too many open files'')"
    by (simp_all add: working_env_def)
  moreover have "fs quiet_world (''/tmp/tmpk3v9in'' @ suffix (filename_or [] clip_upload)) = None"
    by (simp add: quiet_world_def)
  ultimately have "extract_audio_with_ffmpeg ?e clip_upload quiet_world
      = (Inl (OSError ''[Errno 24] Too many open files''),
         quiet_world\<lparr>fs := (fs quiet_world)(''/tmp/tmpk3v9in'' @ suffix (filename_or [] clip_upload) \<mapsto> []),
           calls := calls quiet_world @ [TempFile (''/tmp/tmpk3v9in'' @ suffix (filename_or [] clip_upload))]\<rparr>)"
    by (simp add: output_temp_failure)
  then show ?thesis by (simp add: clip_names quiet_world_def)
qed

lemma working_clip:
  "fst (extract_audio_with_ffmpeg working_env clip_upload quiet_world)
     = Inr (BytesIO [0x49, 0x44, 0x33], ''clip.mp3'')"
proof -
  have "fst (extract_audio_with_ffmpeg working_env clip_upload quiet_world)
     = Inr (BytesIO [0x49, 0x44, 0x33], stem (filename_or ''audio'' clip_upload) @ ''.mp3'')"
    by (rule extract_audio_with_ffmpeg_success [where bi = "''/tmp/tmpk3v9in''" and bo = "''/tmp/tmpq7x2out''"])
      (simp_all add: working_env_def quiet_world_def clip_names)
  then show ?thesis by (simp add: clip_names)
qed

lemma nameless_names:
  assumes "filename u = None \<or> filename u = Some []"
  shows "filename_or d u = d"
  using assms by (auto simp: filename_or_def)

text \<open>
  C5, as stated: whenever the transcoding path succeeds on an upload named \<open>n0\<close>, the payload
  is named by the stem of \<open>n0\<close> followed by \<^verbatim>\<open>.mp3\<close>. This fails for the empty name: the code
  falls back to the name \<^verbatim>\<open>audio\<close>, so the payload is \<^verbatim>\<open>audio.mp3\<close> and not \<^verbatim>\<open>.mp3\<close>.
\<close>

theorem empty_name_payload_counterexample:
  "\<not> (\<forall>e u w s n w' n0.
         filename u = Some n0 \<longrightarrow> extract_audio_with_ffmpeg e u w = (Inr (s, n), w')
           \<longrightarrow> n = stem n0 @ ''.mp3'')"
proof
  assume claim: "\<forall>e u w s n w' n0.
         filename u = Some n0 \<longrightarrow> extract_audio_with_ffmpeg e u w = (Inr (s, n), w')
           \<longrightarrow> n = stem n0 @ ''.mp3''"
  let ?u = "clip_upload\<lparr>filename := Some []\<rparr>"
  have names: "filename_or [] ?u = []" "filename_or ''audio'' ?u = ''audio''"
    by (simp_all add: filename_or_def)
  have "fst (extract_audio_with_ffmpeg working_env ?u quiet_world)
     = Inr (BytesIO [0x49, 0x44, 0x33], stem (filename_or ''audio'' ?u) @ ''.mp3'')"
    by (rule extract_audio_with_ffmpeg_success [where bi = "''/tmp/tmpk3v9in''" and bo = "''/tmp/tmpq7x2out''"])
      (simp_all add: working_env_def quiet_world_def names suffix_empty)
  then obtain w' where run: "extract_audio_with_ffmpeg working_env ?u quiet_world
     = (Inr (BytesIO [0x49, 0x44, 0x33], ''audio.mp3''), w')"
    by (cases "extract_audio_with_ffmpeg working_env ?u quiet_world") (simp add: names stem_audio)
  have "filename ?u = Some []" by simp
  with claim run have "''audio.mp3'' = stem [] @ ''.mp3''" by blast
  then show False by (simp add: stem_def path_name_def name_stem_def)
qed

text \<open>
  C5, amended. Whenever the transcoding path succeeds, the payload is named by the stem of
  the upload's file name followed by \<^verbatim>\<open>.mp3\<close> if the upload has a non-empty name, and
  \<^verbatim>\<open>audio.mp3\<close> if the name is absent or empty; and its stream is a fresh in-memory stream
  holding exactly the bytes the transcoder left in the output temporary file, which it
  produced from the bytes of the upload found in the input temporary file.
\<close>

theorem transcoded_payload_name_and_bytes:
  assumes "extract_audio_with_ffmpeg e u w = (Inr (s, n), w')"
  shows "(\<forall>n0. filename u = Some n0 \<and> n0 \<noteq> [] \<longrightarrow> n = stem n0 @ ''.mp3'')
       \<and> (filename u = None \<or> filename u = Some [] \<longrightarrow> n = ''audio.mp3'')
       \<and> (\<exists>bi bo audio. input_temp e = Inr bi \<and> output_temp e = Inr bo
             \<and> ffmpeg_run e (bi @ suffix (filename_or [] u)) (bo @ ''.mp3'')
                  (Some (drop (upload_pos w) (file_bytes u))) = Completed audio
             \<and> s = BytesIO audio)"
proof -
  note r = extract_audio_with_ffmpeg_InrD [OF assms]
  have a: "\<forall>n0. filename u = Some n0 \<and> n0 \<noteq> [] \<longrightarrow> n = stem n0 @ ''.mp3''"
    using r(1) by (simp add: filename_or_def)
  have b: "filename u = None \<or> filename u = Some [] \<longrightarrow> n = ''audio.mp3''"
    using r(1) by (auto simp: nameless_names stem_audio)
  from a b r(2) show ?thesis by blast
qed

text \<open>
  The upload \<^verbatim>\<open>clip.mp4\<close> in the working environment: the payload is \<^verbatim>\<open>clip.mp3\<close> with the
  three bytes written by the transcoder.
\<close>

theorem transcoded_payload_name_and_bytes_witness:
  "\<exists>w'. extract_audio_with_ffmpeg working_env clip_upload quiet_world
           = (Inr (BytesIO [0x49, 0x44, 0x33], ''clip.mp3''), w')
        \<and> ''clip.mp3'' = stem ''clip.mp4'' @ ''.mp3''
        \<and> ffmpeg_run working_env ''/tmp/tmpk3v9in.mp4'' ''/tmp/tmpq7x2out.mp3''
             (Some (drop (upload_pos quiet_world) (file_bytes clip_upload)))
           = Completed [0x49, 0x44, 0x33]"
proof -
  obtain w' where run: "extract_audio_with_ffmpeg working_env clip_upload quiet_world
           = (Inr (BytesIO [0x49, 0x44, 0x33], ''clip.mp3''), w')"
    using working_clip by (cases "extract_audio_with_ffmpeg working_env clip_upload quiet_world") simp
  have name: "filename clip_upload = Some ''clip.mp4'' \<and> ''clip.mp4'' \<noteq> []"
    by (simp add: clip_upload_def)
  from transcoded_payload_name_and_bytes [OF run] name
  have "''clip.mp3'' = stem ''clip.mp4'' @ ''.mp3''" by blast
  moreover have "ffmpeg_run working_env ''/tmp/tmpk3v9in.mp4'' ''/tmp/tmpq7x2out.mp3''
             (Some (drop (upload_pos quiet_world) (file_bytes clip_upload)))
           = Completed [0x49, 0x44, 0x33]"
    by (simp add: working_env_def)
  ultimately show ?thesis using run by blast
qed

section \<open>The direct path\<close>

lemma forward_rewound_upload:
  "transcriptions_create e u m fname UploadStream (seek 0 w)
     = (whisper e m fname (file_bytes u),
        w\<lparr>upload_pos := length (file_bytes u),
          calls := calls w @ [TranscriptionsCreate m fname UploadStream (file_bytes u)]\<rparr>)"
  by (simp add: transcriptions_create_def read_stream_def read_upload_def seek_def)

lemma direct_source:
  assumes "already_supported u \<or> audio_extraction_service a = None"
  shows "extraction_or_fallback e a u w = (Inr (UploadStream, filename_or ''audio'' u), seek 0 w)"
  using assms
  by (auto simp: extraction_or_fallback_def extract_audio_stream_def split: option.splits)

lemma transcribe_from_upload_direct:
  assumes "already_supported u \<or> audio_extraction_service a = None"
  shows "transcribe_from_upload e a u m w
           = transcriptions_create e u m (filename_or ''audio'' u) UploadStream (seek 0 w)"
  by (simp add: transcribe_from_upload_def direct_source [OF assms])

section \<open>Calls made by the pipeline\<close>

lemma extract_audio_stream_calls:
  "\<exists>evs. calls (snd (extract_audio_stream e u w)) = calls w @ evs \<and> api_models evs = []"
proof (cases "already_supported u")
  case True
  then have "calls (snd (extract_audio_stream e u w)) = calls w @ []"
    by (simp add: extract_audio_stream_def seek_def)
  then show ?thesis by (metis api_models.simps(1))
next
  case False
  then show ?thesis
    using extract_audio_with_ffmpeg_calls [of e u w] by (simp add: extract_audio_stream_def)
qed

lemma extraction_or_fallback_calls:
  "\<exists>evs. calls (snd (extraction_or_fallback e a u w)) = calls w @ evs \<and> api_models evs = []"
proof (cases "audio_extraction_service a")
  case None
  then have "calls (snd (extraction_or_fallback e a u w)) = calls w @ []"
    by (simp add: extraction_or_fallback_def seek_def)
  then show ?thesis by (metis api_models.simps(1))
next
  case (Some svc)
  then show ?thesis
    using extract_audio_stream_calls [of e u w] by (simp add: extraction_or_fallback_def)
qed

lemma transcriptions_create_calls:
  "calls (snd (transcriptions_create e u m fname s w))
     = calls w @ [TranscriptionsCreate m fname s (fst (read_stream u s w))]"
  by (cases s) (simp_all add: transcriptions_create_def read_stream_def read_upload_def)

lemma transcribe_from_upload_calls:
  "\<exists>evs. calls (snd (transcribe_from_upload e a u m w)) = calls w @ evs
         \<and> api_models evs = (if isl (fst (extraction_or_fallback e a u w)) then [] else [m])"
proof -
  obtain r w1 where st: "extraction_or_fallback e a u w = (r, w1)"
    by (cases "extraction_or_fallback e a u w")
  from extraction_or_fallback_calls [of e a u w] st
  obtain evs1 where evs1: "calls w1 = calls w @ evs1" "api_models evs1 = []" by auto
  show ?thesis
  proof (cases r)
    case (Inl x)
    with st have "transcribe_from_upload e a u m w = (Inl x, w1)"
      by (simp add: transcribe_from_upload_def)
    with evs1 st Inl show ?thesis by auto
  next
    case (Inr p)
    obtain audio fname where p: "p = (audio, fname)" by (cases p)
    with st Inr
    have res: "transcribe_from_upload e a u m w = transcriptions_create e u m fname audio w1"
      by (simp add: transcribe_from_upload_def)
    let ?ev = "TranscriptionsCreate m fname audio (fst (read_stream u audio w1))"
    from res evs1(1) have "calls (snd (transcribe_from_upload e a u m w)) = calls w @ (evs1 @ [?ev])"
      by (simp add: transcriptions_create_calls)
    moreover have "api_models (evs1 @ [?ev]) = [m]"
      by (simp add: api_models_append evs1(2))
    ultimately show ?thesis using st Inr by auto
  qed
qed

lemma transcribe_from_upload_Inr_source:
  assumes "fst (transcribe_from_upload e a u m w) = Inr t"
  shows "\<not> isl (fst (extraction_or_fallback e a u w))"
  using assms
  by (cases "extraction_or_fallback e a u w")
    (auto simp: transcribe_from_upload_def split: sum.splits)

section \<open>The endpoints\<close>

lemma rejected_upload_no_downstream:
  assumes "content_type_rejected (upload req)"
  shows "transcribe_media e a req w
           = (ReturnTuple [(''msg'', Str ''El archivo debe ser de tipo audio o video'')] 400, w)"
  using assms by (simp add: transcribe_media_def)

lemma pdf_rejected: "content_type_rejected pdf_upload"
  by (simp add: content_type_rejected_def pdf_upload_def startswith_def)

text \<open>
  C1. The claim is that an upload whose content type is absent or is neither audio nor video
  is answered with HTTP status 400 and reaches no downstream component. The second half
  holds (\<open>rejected_upload_no_downstream\<close>: the state is returned unchanged, so there is no
  call to the service manager, no temporary file, no transcoder run and no request to the
  API). The first half does not: for the upload \<^verbatim>\<open>paper.pdf\<close> of type \<^verbatim>\<open>application/pdf\<close> the path
  function returns the pair of a message dictionary and the number 400, which is neither
  of the two kinds of value its signature announces, and the answer sent for that pair has
  status 500, not 400.
\<close>

theorem rejected_upload_returns_pair:
  "transcribe_media e a \<lparr>upload = pdf_upload, model_field = m\<rparr> w
     = (ReturnTuple [(''msg'', Str ''El archivo debe ser de tipo audio o video'')] 400, w)
   \<and> transcribe_route_response (fst (transcribe_media e a \<lparr>upload = pdf_upload, model_field = m\<rparr> w))
     = \<lparr>status_code = 500, body = PlainText ''Internal Server Error''\<rparr>"
proof -
  have "content_type_rejected (upload \<lparr>upload = pdf_upload, model_field = m\<rparr>)"
    by (simp add: pdf_rejected)
  then have "transcribe_media e a \<lparr>upload = pdf_upload, model_field = m\<rparr> w
     = (ReturnTuple [(''msg'', Str ''El archivo debe ser de tipo audio o video'')] 400, w)"
    by (rule rejected_upload_no_downstream)
  then show ?thesis by (simp add: transcribe_route_response_def)
qed

text \<open>
  C4. When the content type is accepted and the processing behind the service manager
  raises, whatever the exception \<open>x\<close> and wherever it was raised (temporary files, the
  transcoder, the remote API), the endpoint returns a \<^verbatim>\<open>JSONResponse\<close> with status 500 whose
  content is exactly \<^verbatim>\<open>{"success": false, "error": "Error interno del servidor"}\<close>, and this is
  the HTTP response sent: nothing of \<open>x\<close> occurs in it.
\<close>

theorem processing_error_gives_generic_500:
  assumes "\<not> content_type_rejected (upload req)"
    and "fst (ServiceManager_transcribe_media e a (upload req)
               (case model_field req of None \<Rightarrow> ''whisper-1'' | Some m \<Rightarrow> m) w) = Inl x"
  shows "fst (transcribe_media e a req w)
           = ReturnJSONResponse 500
               [(''success'', Bool False), (''error'', Str ''Error interno del servidor'')]
       \<and> transcribe_route_response (fst (transcribe_media e a req w))
           = \<lparr>status_code = 500,
              body = JSON [(''success'', Bool False), (''error'', Str ''Error interno del servidor'')]\<rparr>"
proof -
  obtain r w1 where run: "ServiceManager_transcribe_media e a (upload req)
               (case model_field req of None \<Rightarrow> ''whisper-1'' | Some m \<Rightarrow> m) w = (r, w1)"
    by (cases "ServiceManager_transcribe_media e a (upload req)
               (case model_field req of None \<Rightarrow> ''whisper-1'' | Some m \<Rightarrow> m) w")
  with assms(2) have "r = Inl x" by simp
  with assms(1) run have "fst (transcribe_media e a req w)
           = ReturnJSONResponse 500
               [(''success'', Bool False), (''error'', Str ''Error interno del servidor'')]"
    by (simp add: transcribe_media_def new_ErrorResponse_def)
  then show ?thesis by (simp add: transcribe_route_response_def)
qed

text \<open>
  C8. The health endpoint returns the dictionary \<^verbatim>\<open>{"status": "healthy"}\<close> in every state and
  leaves the state as it is; it takes nothing from the request or the environment. The
  response sent for it has status 200 and that dictionary as its body.
\<close>

theorem health_check_always_healthy:
  "health_check w = ([(''status'', Str ''healthy'')], w)
   \<and> health_route_response (fst (health_check w))
       = \<lparr>status_code = 200, body = JSON [(''status'', Str ''healthy'')]\<rparr>"
  by (simp add: health_check_def health_route_response_def)

lemma clip_not_supported: "\<not> already_supported clip_upload"
  by (simp add: already_supported_def file_extension_def clip_names lower_def lower_char_def
      supported_extensions_def)

lemma voice_supported: "already_supported voice_upload"
  by (simp add: already_supported_def file_extension_def voice_upload_def filename_or_def
      suffix_def path_name_def name_suffix_def lower_def lower_char_def supported_extensions_def)

lemma uploads_accepted:
  "\<not> content_type_rejected clip_upload" "\<not> content_type_rejected voice_upload"
  by (simp_all add: content_type_rejected_def clip_upload_def voice_upload_def startswith_def)

text \<open>
  Two failing requests: the transcoder exits with an error on \<^verbatim>\<open>clip.mp4\<close>, and the remote API
  rejects the key on \<^verbatim>\<open>Voice.MP3\<close>. Both are answered alike.
\<close>

theorem processing_error_gives_generic_500_witness:
  "fst (transcribe_media (working_env\<lparr>ffmpeg_run := (\<lambda>inp out b. ToolError (Some [0x45, 0x72, 0x72]))\<rparr>)
          bootstrap_adapter \<lparr>upload = clip_upload, model_field = None\<rparr> quiet_world)
     = ReturnJSONResponse 500
         [(''success'', Bool False), (''error'', Str ''Error interno del servidor'')]
   \<and> transcribe_route_response
        (fst (transcribe_media (working_env\<lparr>whisper := (\<lambda>m f b. Inl (APIError ''401 invalid key''))\<rparr>)
               bootstrap_adapter \<lparr>upload = voice_upload, model_field = Some ''whisper-1''\<rparr> quiet_world))
     = \<lparr>status_code = 500,
        body = JSON [(''success'', Bool False), (''error'', Str ''Error interno del servidor'')]\<rparr>"
proof -
  let ?e1 = "working_env\<lparr>ffmpeg_run := (\<lambda>inp out b. ToolError (Some [0x45, 0x72, 0x72]))\<rparr>"
  let ?e2 = "working_env\<lparr>whisper := (\<lambda>m f b. Inl (APIError ''401 invalid key''))\<rparr>"
  let ?r1 = "\<lparr>upload = clip_upload, model_field = None\<rparr>"
  let ?r2 = "\<lparr>upload = voice_upload, model_field = Some ''whisper-1''\<rparr>"
  have a1: "\<not> content_type_rejected (upload ?r1)" and a2: "\<not> content_type_rejected (upload ?r2)"
    by (simp_all add: uploads_accepted)
  have b1: "fst (ServiceManager_transcribe_media ?e1 bootstrap_adapter (upload ?r1)
               (case model_field ?r1 of None \<Rightarrow> ''whisper-1'' | Some m \<Rightarrow> m) quiet_world)
            = Inl (FFmpegError (Some [0x45, 0x72, 0x72]))"
    by (simp add: ServiceManager_transcribe_media_def transcribe_from_upload_def
        extraction_or_fallback_def bootstrap_adapter_def extract_audio_stream_def
        clip_not_supported extract_audio_with_ffmpeg_def NamedTemporaryFile_def clip_names
        working_env_def quiet_world_def extract_body_def read_upload_def unlink_def)
  have b2: "fst (ServiceManager_transcribe_media ?e2 bootstrap_adapter (upload ?r2)
               (case model_field ?r2 of None \<Rightarrow> ''whisper-1'' | Some m \<Rightarrow> m) quiet_world)
            = Inl (APIError ''401 invalid key'')"
    by (simp add: ServiceManager_transcribe_media_def transcribe_from_upload_direct voice_supported
        forward_rewound_upload working_env_def)
  from processing_error_gives_generic_500 [OF a1 b1] processing_error_gives_generic_500 [OF a2 b2]
  show ?thesis by blast
qed

text \<open>
  C6. For an upload with a supported extension the extraction step hands back the upload's
  own stream under the upload's own file name and only rewinds it: no temporary file is
  created and the transcoder is not run. The transcription adapter then makes exactly one
  call, the request to the remote API with the given model, that file name and that stream;
  the file system is untouched. This holds with and without an injected extraction service.
\<close>

theorem supported_upload_is_forwarded_unchanged:
  assumes "already_supported u"
  shows "\<exists>n. filename u = Some n
       \<and> extract_audio_stream e u w = (Inr (UploadStream, n), w\<lparr>upload_pos := 0\<rparr>)
       \<and> transcribe_from_upload e a u m w
           = (whisper e m n (file_bytes u),
              w\<lparr>upload_pos := length (file_bytes u),
                calls := calls w @ [TranscriptionsCreate m n UploadStream (file_bytes u)]\<rparr>)"
proof -
  from supported_has_name [OF assms, of "''audio''"] obtain n
    where n: "filename u = Some n" "filename_or ''audio'' u = n" by blast
  from assms n(2) have "extract_audio_stream e u w = (Inr (UploadStream, n), w\<lparr>upload_pos := 0\<rparr>)"
    by (simp add: extract_audio_stream_def seek_def)
  moreover from assms n(2) have "transcribe_from_upload e a u m w
           = (whisper e m n (file_bytes u),
              w\<lparr>upload_pos := length (file_bytes u),
                calls := calls w @ [TranscriptionsCreate m n UploadStream (file_bytes u)]\<rparr>)"
    by (simp add: transcribe_from_upload_direct forward_rewound_upload)
  ultimately show ?thesis using n(1) by blast
qed

text \<open>The upload \<^verbatim>\<open>Voice.MP3\<close> with the wiring of \<^verbatim>\<open>bootstrap_app\<close>.\<close>

theorem supported_upload_is_forwarded_unchanged_witness:
  "extract_audio_stream working_env voice_upload quiet_world
     = (Inr (UploadStream, ''Voice.MP3''), quiet_world\<lparr>upload_pos := 0\<rparr>)
   \<and> transcribe_from_upload working_env bootstrap_adapter voice_upload ''whisper-1'' quiet_world
     = (Inr ''hola mundo'',
        quiet_world\<lparr>upload_pos := 3,
          calls := [TranscriptionsCreate ''whisper-1'' ''Voice.MP3'' UploadStream [0xFF, 0xFB, 0x90]]\<rparr>)"
proof -
  from supported_upload_is_forwarded_unchanged [OF voice_supported, of working_env quiet_world
      bootstrap_adapter "''whisper-1''"]
  obtain n where n: "filename voice_upload = Some n"
    and x: "extract_audio_stream working_env voice_upload quiet_world
              = (Inr (UploadStream, n), quiet_world\<lparr>upload_pos := 0\<rparr>)"
    and t: "transcribe_from_upload working_env bootstrap_adapter voice_upload ''whisper-1'' quiet_world
           = (whisper working_env ''whisper-1'' n (file_bytes voice_upload),
              quiet_world\<lparr>upload_pos := length (file_bytes voice_upload),
                calls := calls quiet_world
                  @ [TranscriptionsCreate ''whisper-1'' n UploadStream (file_bytes voice_upload)]\<rparr>)"
    by blast
  from n have "n = ''Voice.MP3''" by (simp add: voice_upload_def)
  with x t show ?thesis by (simp add: voice_upload_def working_env_def quiet_world_def)
qed

text \<open>
  The client sends what it reads from the current position of the stream: without the
  rewinding, the bytes before the position would be missing.
\<close>

lemma unrewound_stream_sends_rest:
  "fst (read_stream u UploadStream w) = drop (upload_pos w) (file_bytes u)"
  by (simp add: read_stream_def read_upload_def)

text \<open>
  C9. On both paths that forward the upload without transcoding (a supported extension, or
  no extraction service injected) the stream is at position 0 when it is handed to the
  client, whatever its position \<open>upload_pos w\<close> was before, and the bytes sent to the remote
  API are all the bytes of the upload.
\<close>

theorem forwarded_upload_is_rewound:
  assumes "already_supported u \<or> audio_extraction_service a = None"
  shows "extraction_or_fallback e a u w
           = (Inr (UploadStream, filename_or ''audio'' u), w\<lparr>upload_pos := 0\<rparr>)
       \<and> transcribe_from_upload e a u m w
           = transcriptions_create e u m (filename_or ''audio'' u) UploadStream (w\<lparr>upload_pos := 0\<rparr>)
       \<and> calls (snd (transcribe_from_upload e a u m w))
           = calls w @ [TranscriptionsCreate m (filename_or ''audio'' u) UploadStream (file_bytes u)]"
proof -
  have rewind: "seek 0 w = w\<lparr>upload_pos := 0\<rparr>" by (simp add: seek_def)
  from direct_source [OF assms, of e w] rewind
  have a: "extraction_or_fallback e a u w
           = (Inr (UploadStream, filename_or ''audio'' u), w\<lparr>upload_pos := 0\<rparr>)"
    by simp
  from transcribe_from_upload_direct [OF assms, of e m w] rewind
  have b: "transcribe_from_upload e a u m w
           = transcriptions_create e u m (filename_or ''audio'' u) UploadStream (w\<lparr>upload_pos := 0\<rparr>)"
    by simp
  from transcribe_from_upload_direct [OF assms, of e m w]
  have c: "calls (snd (transcribe_from_upload e a u m w))
           = calls w @ [TranscriptionsCreate m (filename_or ''audio'' u) UploadStream (file_bytes u)]"
    by (simp add: forward_rewound_upload)
  from a b c show ?thesis by blast
qed

text \<open>
  \<^verbatim>\<open>Voice.MP3\<close> read to its end beforehand, and \<^verbatim>\<open>clip.mp4\<close> read up to position 2 with no
  extraction service: both are sent whole.
\<close>

theorem forwarded_upload_is_rewound_witness:
  "calls (snd (transcribe_from_upload working_env bootstrap_adapter voice_upload ''whisper-1''
                 (quiet_world\<lparr>upload_pos := 3\<rparr>)))
     = [TranscriptionsCreate ''whisper-1'' ''Voice.MP3'' UploadStream [0xFF, 0xFB, 0x90]]
   \<and> calls (snd (transcribe_from_upload working_env \<lparr>audio_extraction_service = None\<rparr> clip_upload
                   ''whisper-1'' (quiet_world\<lparr>upload_pos := 2\<rparr>)))
     = [TranscriptionsCreate ''whisper-1'' ''clip.mp4'' UploadStream [0, 0, 0, 0x18]]"
proof -
  have p1: "already_supported voice_upload \<or> audio_extraction_service bootstrap_adapter = None"
    by (simp add: voice_supported)
  have p2: "already_supported clip_upload
      \<or> audio_extraction_service \<lparr>audio_extraction_service = None\<rparr> = None"
    by simp
  have names: "filename_or ''audio'' voice_upload = ''Voice.MP3''"
    "filename_or ''audio'' clip_upload = ''clip.mp4''"
    by (simp_all add: filename_or_def voice_upload_def clip_upload_def)
  from forwarded_upload_is_rewound [OF p1, of working_env "quiet_world\<lparr>upload_pos := 3\<rparr>" "''whisper-1''"]
  have "calls (snd (transcribe_from_upload working_env bootstrap_adapter voice_upload ''whisper-1''
                 (quiet_world\<lparr>upload_pos := 3\<rparr>)))
     = calls (quiet_world\<lparr>upload_pos := 3\<rparr>)
       @ [TranscriptionsCreate ''whisper-1'' (filename_or ''audio'' voice_upload) UploadStream
            (file_bytes voice_upload)]"
    by blast
  then have "calls (snd (transcribe_from_upload working_env bootstrap_adapter voice_upload ''whisper-1''
                 (quiet_world\<lparr>upload_pos := 3\<rparr>)))
     = [TranscriptionsCreate ''whisper-1'' ''Voice.MP3'' UploadStream [0xFF, 0xFB, 0x90]]"
    unfolding names by (simp add: quiet_world_def voice_upload_def)
  moreover
  from forwarded_upload_is_rewound [OF p2, of working_env "quiet_world\<lparr>upload_pos := 2\<rparr>" "''whisper-1''"]
  have "calls (snd (transcribe_from_upload working_env \<lparr>audio_extraction_service = None\<rparr> clip_upload
                   ''whisper-1'' (quiet_world\<lparr>upload_pos := 2\<rparr>)))
     = calls (quiet_world\<lparr>upload_pos := 2\<rparr>)
       @ [TranscriptionsCreate ''whisper-1'' (filename_or ''audio'' clip_upload) UploadStream
            (file_bytes clip_upload)]"
    by blast
  then have "calls (snd (transcribe_from_upload working_env \<lparr>audio_extraction_service = None\<rparr> clip_upload
                   ''whisper-1'' (quiet_world\<lparr>upload_pos := 2\<rparr>)))
     = [TranscriptionsCreate ''whisper-1'' ''clip.mp4'' UploadStream [0, 0, 0, 0x18]]"
    unfolding names by (simp add: quiet_world_def clip_upload_def)
  ultimately show ?thesis by blast
qed

lemma transcribe_media_calls:
  "\<exists>evs. calls (snd (transcribe_media e a req w)) = calls w @ evs
     \<and> api_models evs
         = (if content_type_rejected (upload req)
               \<or> isl (fst (extraction_or_fallback e a (upload req)
                             (w\<lparr>calls := calls w @ [ServiceManagerCall]\<rparr>)))
            then [] else [case model_field req of None \<Rightarrow> ''whisper-1'' | Some m \<Rightarrow> m])"
proof (cases "content_type_rejected (upload req)")
  case True
  then have "calls (snd (transcribe_media e a req w)) = calls w @ []"
    by (simp add: rejected_upload_no_downstream)
  with True show ?thesis by (metis api_models.simps(1))
next
  case False
  let ?m = "case model_field req of None \<Rightarrow> ''whisper-1'' | Some m \<Rightarrow> m"
  let ?w0 = "w\<lparr>calls := calls w @ [ServiceManagerCall]\<rparr>"
  from transcribe_from_upload_calls [of e a "upload req" ?m ?w0]
  obtain evs where evs: "calls (snd (transcribe_from_upload e a (upload req) ?m ?w0)) = calls ?w0 @ evs"
    "api_models evs = (if isl (fst (extraction_or_fallback e a (upload req) ?w0)) then [] else [?m])"
    by blast
  have "snd (transcribe_media e a req w) = snd (transcribe_from_upload e a (upload req) ?m ?w0)"
    using False
    by (cases "transcribe_from_upload e a (upload req) ?m ?w0")
      (auto simp: transcribe_media_def ServiceManager_transcribe_media_def split: sum.splits)
  with evs(1) have "calls (snd (transcribe_media e a req w)) = calls w @ (ServiceManagerCall # evs)"
    by simp
  moreover from evs(2) False have "api_models (ServiceManagerCall # evs)
         = (if content_type_rejected (upload req)
               \<or> isl (fst (extraction_or_fallback e a (upload req) ?w0))
            then [] else [?m])"
    by simp
  ultimately show ?thesis by blast
qed

lemma transcribe_media_ReturnModelD:
  assumes "fst (transcribe_media e a req w) = ReturnModel t"
  shows "\<not> content_type_rejected (upload req)"
    and "\<not> isl (fst (extraction_or_fallback e a (upload req)
                        (w\<lparr>calls := calls w @ [ServiceManagerCall]\<rparr>)))"
proof -
  show rej: "\<not> content_type_rejected (upload req)"
    using assms by (auto simp: transcribe_media_def)
  let ?m = "case model_field req of None \<Rightarrow> ''whisper-1'' | Some m \<Rightarrow> m"
  let ?w0 = "w\<lparr>calls := calls w @ [ServiceManagerCall]\<rparr>"
  from assms rej obtain tr where "fst (transcribe_from_upload e a (upload req) ?m ?w0) = Inr tr"
    by (cases "transcribe_from_upload e a (upload req) ?m ?w0")
      (auto simp: transcribe_media_def ServiceManager_transcribe_media_def split: sum.splits)
  then show "\<not> isl (fst (extraction_or_fallback e a (upload req) ?w0))"
    by (rule transcribe_from_upload_Inr_source)
qed

lemma voice_request_succeeds:
  "fst (transcribe_media working_env bootstrap_adapter \<lparr>upload = voice_upload, model_field = mf\<rparr> w)
     = ReturnModel (TranscriptionResponse ''hola mundo'' True)"
  by (simp add: transcribe_media_def uploads_accepted ServiceManager_transcribe_media_def
      transcribe_from_upload_direct voice_supported forward_rewound_upload working_env_def
      new_TranscriptionResponse_def)

lemma bound_model:
  "(case bind_model_form f of None \<Rightarrow> ''whisper-1'' | Some m \<Rightarrow> m)
     = (case f of None \<Rightarrow> ''whisper-1'' | Some v \<Rightarrow> if v = [] then ''whisper-1'' else v)"
  by (simp add: bind_model_form_def split: option.splits)

text \<open>
  The requests to the remote API made while a request to the endpoint is handled: none when
  the content type is rejected or the audio cannot be obtained, and otherwise one, whose
  model is the one bound from the form field.
\<close>

lemma post_transcribe_calls:
  "\<exists>evs. calls (snd (post_transcribe e a u f w)) = calls w @ evs
     \<and> api_models evs
         = (if content_type_rejected u
               \<or> isl (fst (extraction_or_fallback e a u
                             (w\<lparr>calls := calls w @ [ServiceManagerCall]\<rparr>)))
            then []
            else [case f of None \<Rightarrow> ''whisper-1''
                  | Some v \<Rightarrow> if v = [] then ''whisper-1'' else v])"
proof -
  let ?req = "\<lparr>upload = u, model_field = bind_model_form f\<rparr>"
  from transcribe_media_calls [of e a ?req w] obtain evs
    where evs: "calls (snd (transcribe_media e a ?req w)) = calls w @ evs"
      "api_models evs
         = (if content_type_rejected (upload ?req)
               \<or> isl (fst (extraction_or_fallback e a (upload ?req)
                             (w\<lparr>calls := calls w @ [ServiceManagerCall]\<rparr>)))
            then [] else [case model_field ?req of None \<Rightarrow> ''whisper-1'' | Some m \<Rightarrow> m])"
    by blast
  from evs(1) have a: "calls (snd (post_transcribe e a u f w)) = calls w @ evs"
    by (simp add: post_transcribe_def)
  have m: "(case model_field ?req of None \<Rightarrow> ''whisper-1'' | Some m \<Rightarrow> m)
      = (case f of None \<Rightarrow> ''whisper-1'' | Some v \<Rightarrow> if v = [] then ''whisper-1'' else v)"
    by (simp add: bound_model)
  from evs(2) have b: "api_models evs
         = (if content_type_rejected u
               \<or> isl (fst (extraction_or_fallback e a u
                             (w\<lparr>calls := calls w @ [ServiceManagerCall]\<rparr>)))
            then []
            else [case f of None \<Rightarrow> ''whisper-1''
                  | Some v \<Rightarrow> if v = [] then ''whisper-1'' else v])"
    unfolding m by simp
  from a b show ?thesis by blast
qed

lemma post_transcribe_ReturnModelD:
  assumes "fst (post_transcribe e a u f w) = ReturnModel t"
  shows "\<not> content_type_rejected u"
    and "\<not> isl (fst (extraction_or_fallback e a u (w\<lparr>calls := calls w @ [ServiceManagerCall]\<rparr>)))"
  using transcribe_media_ReturnModelD [of e a "\<lparr>upload = u, model_field = bind_model_form f\<rparr>" w t]
    assms
  by (simp_all add: post_transcribe_def)

lemma voice_post_succeeds:
  "fst (post_transcribe working_env bootstrap_adapter voice_upload f w)
     = ReturnModel (TranscriptionResponse ''hola mundo'' True)"
  by (simp add: post_transcribe_def voice_request_succeeds)

lemma voice_post_models:
  "api_models (calls (snd (post_transcribe working_env bootstrap_adapter voice_upload f quiet_world)))
     = [case f of None \<Rightarrow> ''whisper-1'' | Some v \<Rightarrow> if v = [] then ''whisper-1'' else v]"
proof -
  from post_transcribe_calls [of working_env bootstrap_adapter voice_upload f quiet_world]
  obtain evs where evs:
    "calls (snd (post_transcribe working_env bootstrap_adapter voice_upload f quiet_world))
       = calls quiet_world @ evs"
    "api_models evs
         = (if content_type_rejected voice_upload
               \<or> isl (fst (extraction_or_fallback working_env bootstrap_adapter voice_upload
                             (quiet_world\<lparr>calls := calls quiet_world @ [ServiceManagerCall]\<rparr>)))
            then []
            else [case f of None \<Rightarrow> ''whisper-1''
                  | Some v \<Rightarrow> if v = [] then ''whisper-1'' else v])"
    by blast
  have "\<not> isl (fst (extraction_or_fallback working_env bootstrap_adapter voice_upload
                             (quiet_world\<lparr>calls := calls quiet_world @ [ServiceManagerCall]\<rparr>)))"
    by (simp add: direct_source voice_supported)
  with evs(2) have "api_models evs
      = [case f of None \<Rightarrow> ''whisper-1'' | Some v \<Rightarrow> if v = [] then ''whisper-1'' else v]"
    by (simp add: uploads_accepted)
  with evs(1) show ?thesis by (simp add: quiet_world_def)
qed

text \<open>
  C7, as stated: every request to the remote API made while a request to the endpoint is
  handled carries \<^verbatim>\<open>whisper-1\<close> when the form field was omitted and the value of the field when
  it was supplied. This fails for a field supplied with the empty string: the parameter is
  then left to its default, and the upload \<^verbatim>\<open>Voice.MP3\<close> is sent with the model \<^verbatim>\<open>whisper-1\<close>,
  not with the empty model.
\<close>

theorem empty_model_field_counterexample:
  "\<not> (\<forall>e a u f w evs.
         calls (snd (post_transcribe e a u f w)) = calls w @ evs
           \<longrightarrow> api_models evs = []
               \<or> api_models evs = [case f of None \<Rightarrow> ''whisper-1'' | Some v \<Rightarrow> v])"
proof
  assume claim: "\<forall>e a u f w evs.
         calls (snd (post_transcribe e a u f w)) = calls w @ evs
           \<longrightarrow> api_models evs = []
               \<or> api_models evs = [case f of None \<Rightarrow> ''whisper-1'' | Some v \<Rightarrow> v]"
  let ?evs = "calls (snd (post_transcribe working_env bootstrap_adapter voice_upload (Some [])
                            quiet_world))"
  have sent: "api_models ?evs = [''whisper-1'']"
    using voice_post_models [of "Some []"] by simp
  have "calls (snd (post_transcribe working_env bootstrap_adapter voice_upload (Some []) quiet_world))
      = calls quiet_world @ ?evs"
    by (simp add: quiet_world_def)
  with claim have "api_models ?evs = []
      \<or> api_models ?evs = [case Some [] of None \<Rightarrow> ''whisper-1'' | Some v \<Rightarrow> v]"
    by blast
  with sent show False by simp
qed

text \<open>
  C7, amended. The calls made while a request to the transcribe endpoint is handled contain
  a request to the remote API exactly when the content type is accepted and the audio could
  be obtained; there is then one such request, and its model is \<^verbatim>\<open>whisper-1\<close> when the form
  field \<^verbatim>\<open>model\<close> was omitted or supplied empty, and the value of the field, unchanged, when
  it was supplied with a non-empty value. In particular this is so whenever the endpoint
  answers with a transcription.
\<close>

theorem model_form_field_reaches_api:
  "\<exists>evs. calls (snd (post_transcribe e a u f w)) = calls w @ evs
     \<and> api_models evs
         = (if content_type_rejected u
               \<or> isl (fst (extraction_or_fallback e a u
                             (w\<lparr>calls := calls w @ [ServiceManagerCall]\<rparr>)))
            then []
            else [case f of None \<Rightarrow> ''whisper-1''
                  | Some v \<Rightarrow> if v = [] then ''whisper-1'' else v])
     \<and> ((\<exists>t. fst (post_transcribe e a u f w) = ReturnModel t)
          \<longrightarrow> api_models evs
                = [case f of None \<Rightarrow> ''whisper-1''
                   | Some v \<Rightarrow> if v = [] then ''whisper-1'' else v])"
proof -
  from post_transcribe_calls [of e a u f w] obtain evs
    where evs: "calls (snd (post_transcribe e a u f w)) = calls w @ evs"
      "api_models evs
         = (if content_type_rejected u
               \<or> isl (fst (extraction_or_fallback e a u
                             (w\<lparr>calls := calls w @ [ServiceManagerCall]\<rparr>)))
            then []
            else [case f of None \<Rightarrow> ''whisper-1''
                  | Some v \<Rightarrow> if v = [] then ''whisper-1'' else v])"
    by blast
  have "(\<exists>t. fst (post_transcribe e a u f w) = ReturnModel t)
          \<longrightarrow> api_models evs
                = [case f of None \<Rightarrow> ''whisper-1''
                   | Some v \<Rightarrow> if v = [] then ''whisper-1'' else v]"
    using evs(2) post_transcribe_ReturnModelD [of e a u f w] by auto
  with evs show ?thesis by blast
qed

text \<open>
  The upload \<^verbatim>\<open>Voice.MP3\<close> without the field, with the field set to another model, and with
  the field set to the empty string: each request is answered with the transcription.
\<close>

theorem model_form_field_reaches_api_witness:
  "fst (post_transcribe working_env bootstrap_adapter voice_upload None quiet_world)
     = ReturnModel (TranscriptionResponse ''hola mundo'' True)
   \<and> api_models (calls (snd (post_transcribe working_env bootstrap_adapter voice_upload None
                              quiet_world)))
     = [''whisper-1'']
   \<and> fst (post_transcribe working_env bootstrap_adapter voice_upload (Some ''gpt-4o-transcribe'')
          quiet_world)
     = ReturnModel (TranscriptionResponse ''hola mundo'' True)
   \<and> api_models (calls (snd (post_transcribe working_env bootstrap_adapter voice_upload
                              (Some ''gpt-4o-transcribe'') quiet_world)))
     = [''gpt-4o-transcribe'']
   \<and> fst (post_transcribe working_env bootstrap_adapter voice_upload (Some []) quiet_world)
     = ReturnModel (TranscriptionResponse ''hola mundo'' True)
   \<and> api_models (calls (snd (post_transcribe working_env bootstrap_adapter voice_upload (Some [])
                              quiet_world)))
     = [''whisper-1'']"
proof -
  have start: "calls quiet_world = []" by (simp add: quiet_world_def)
  note ok = voice_post_succeeds [of _ quiet_world]
  from model_form_field_reaches_api [of working_env bootstrap_adapter voice_upload None quiet_world]
    ok [of None] start
  have m1: "api_models (calls (snd (post_transcribe working_env bootstrap_adapter voice_upload None
                              quiet_world)))
     = [''whisper-1'']"
    by auto
  from model_form_field_reaches_api [of working_env bootstrap_adapter voice_upload
      "Some ''gpt-4o-transcribe''" quiet_world] ok [of "Some ''gpt-4o-transcribe''"] start
  have m2: "api_models (calls (snd (post_transcribe working_env bootstrap_adapter voice_upload
                              (Some ''gpt-4o-transcribe'') quiet_world)))
     = [''gpt-4o-transcribe'']"
    by auto
  from model_form_field_reaches_api [of working_env bootstrap_adapter voice_upload "Some []"
      quiet_world] ok [of "Some []"] start
  have m3: "api_models (calls (snd (post_transcribe working_env bootstrap_adapter voice_upload (Some [])
                              quiet_world)))
     = [''whisper-1'']"
    by auto
  from ok [of None] m1 ok [of "Some ''gpt-4o-transcribe''"] m2 ok [of "Some []"] m3
  show ?thesis by blast
qed

lemma extract_audio_with_ffmpeg_cong:
  assumes "suffix (filename_or [] u) = suffix (filename_or [] v)"
    and "filename_or ''audio'' u = filename_or ''audio'' v"
    and "file_bytes u = file_bytes v"
  shows "extract_audio_with_ffmpeg e u w = extract_audio_with_ffmpeg e v w"
proof -
  have "extract_body e u inp out w' = extract_body e v inp out w'" for inp out w'
    unfolding extract_body_def read_upload_def assms(2,3) ..
  then have body: "extract_body e u = extract_body e v" by (intro ext)
  show ?thesis unfolding extract_audio_with_ffmpeg_def assms(1) body ..
qed

lemma suffix_audio: "suffix ''audio'' = []"
  by (simp add: suffix_def path_name_def name_suffix_def)

text \<open>
  C10. An upload whose file name is absent or empty has the empty extension and is
  classified as needing transcoding. The transcoding path treats it exactly as it treats
  an upload named \<^verbatim>\<open>audio\<close>: whenever it succeeds the payload is named \<^verbatim>\<open>audio.mp3\<close>, and it does
  succeed whenever the temporary files can be created, the input can be written and the
  transcoder completes, so no step fails because of the missing name. The direct fallback
  path (no extraction service) sends the upload under the name \<^verbatim>\<open>audio\<close>.
\<close>

theorem nameless_upload_is_handled:
  assumes "filename u = None \<or> filename u = Some []"
  shows "file_extension u = [] \<and> \<not> already_supported u
       \<and> extract_audio_stream e u w = extract_audio_with_ffmpeg e (u\<lparr>filename := Some ''audio''\<rparr>) w
       \<and> (\<forall>s n w'. extract_audio_stream e u w = (Inr (s, n), w') \<longrightarrow> n = ''audio.mp3'')
       \<and> (input_temp e = Inr bi \<and> output_temp e = Inr bo \<and> write_input e = None
            \<and> fs w bi = None \<and> fs w (bo @ ''.mp3'') = None \<and> bi \<noteq> bo @ ''.mp3''
            \<and> ffmpeg_run e bi (bo @ ''.mp3'') (Some (drop (upload_pos w) (file_bytes u)))
                = Completed audio
          \<longrightarrow> fst (extract_audio_stream e u w) = Inr (BytesIO audio, ''audio.mp3''))
       \<and> transcribe_from_upload e \<lparr>audio_extraction_service = None\<rparr> u m w
           = (whisper e m ''audio'' (file_bytes u),
              w\<lparr>upload_pos := length (file_bytes u),
                calls := calls w @ [TranscriptionsCreate m ''audio'' UploadStream (file_bytes u)]\<rparr>)"
proof -
  note names = nameless_names [OF assms]
  have ext: "file_extension u = []"
    by (simp add: file_extension_def names suffix_empty lower_def)
  then have unsupported: "\<not> already_supported u"
    by (simp add: already_supported_def supported_extensions_def)
  then have path: "extract_audio_stream e u w = extract_audio_with_ffmpeg e u w"
    by (simp add: extract_audio_stream_def)
  have as_audio: "extract_audio_with_ffmpeg e u w
      = extract_audio_with_ffmpeg e (u\<lparr>filename := Some ''audio''\<rparr>) w"
  proof (rule extract_audio_with_ffmpeg_cong)
    have renamed: "filename_or d (u\<lparr>filename := Some ''audio''\<rparr>) = ''audio''" for d
      by (simp add: filename_or_def)
    show "suffix (filename_or [] u) = suffix (filename_or [] (u\<lparr>filename := Some ''audio''\<rparr>))"
      by (simp only: names renamed suffix_empty suffix_audio)
    show "filename_or ''audio'' u = filename_or ''audio'' (u\<lparr>filename := Some ''audio''\<rparr>)"
      by (simp only: names renamed)
    show "file_bytes u = file_bytes (u\<lparr>filename := Some ''audio''\<rparr>)" by simp
  qed
  have named: "\<forall>s n w'. extract_audio_stream e u w = (Inr (s, n), w') \<longrightarrow> n = ''audio.mp3''"
    using extract_audio_with_ffmpeg_InrD(1) [of e u w] by (auto simp: path names stem_audio)
  have succeeds: "input_temp e = Inr bi \<and> output_temp e = Inr bo \<and> write_input e = None
            \<and> fs w bi = None \<and> fs w (bo @ ''.mp3'') = None \<and> bi \<noteq> bo @ ''.mp3''
            \<and> ffmpeg_run e bi (bo @ ''.mp3'') (Some (drop (upload_pos w) (file_bytes u)))
                = Completed audio
          \<longrightarrow> fst (extract_audio_stream e u w) = Inr (BytesIO audio, ''audio.mp3'')"
    using extract_audio_with_ffmpeg_success [of e bi bo w u audio]
    by (simp add: path names suffix_empty stem_audio)
  have fallback: "transcribe_from_upload e \<lparr>audio_extraction_service = None\<rparr> u m w
           = (whisper e m ''audio'' (file_bytes u),
              w\<lparr>upload_pos := length (file_bytes u),
                calls := calls w @ [TranscriptionsCreate m ''audio'' UploadStream (file_bytes u)]\<rparr>)"
    by (simp add: transcribe_from_upload_direct forward_rewound_upload names)
  from ext unsupported path as_audio named succeeds fallback show ?thesis by simp
qed

text \<open>The bytes of \<^verbatim>\<open>clip.mp4\<close> uploaded without a name, and with the empty name.\<close>

theorem nameless_upload_is_handled_witness:
  "\<not> already_supported (clip_upload\<lparr>filename := None\<rparr>)
   \<and> fst (extract_audio_stream working_env (clip_upload\<lparr>filename := None\<rparr>) quiet_world)
       = Inr (BytesIO [0x49, 0x44, 0x33], ''audio.mp3'')
   \<and> fst (extract_audio_stream working_env (clip_upload\<lparr>filename := Some []\<rparr>) quiet_world)
       = Inr (BytesIO [0x49, 0x44, 0x33], ''audio.mp3'')
   \<and> calls (snd (transcribe_from_upload working_env \<lparr>audio_extraction_service = None\<rparr>
                   (clip_upload\<lparr>filename := None\<rparr>) ''whisper-1'' quiet_world))
       = [TranscriptionsCreate ''whisper-1'' ''audio'' UploadStream [0, 0, 0, 0x18]]"
proof -
  let ?u = "clip_upload\<lparr>filename := None\<rparr>" and ?v = "clip_upload\<lparr>filename := Some []\<rparr>"
  have hu: "filename ?u = None \<or> filename ?u = Some []"
    and hv: "filename ?v = None \<or> filename ?v = Some []"
    by simp_all
  have coop: "input_temp working_env = Inr ''/tmp/tmpk3v9in''
      \<and> output_temp working_env = Inr ''/tmp/tmpq7x2out'' \<and> write_input working_env = None
      \<and> fs quiet_world ''/tmp/tmpk3v9in'' = None \<and> fs quiet_world (''/tmp/tmpq7x2out'' @ ''.mp3'') = None
      \<and> ''/tmp/tmpk3v9in'' \<noteq> ''/tmp/tmpq7x2out'' @ ''.mp3''"
    by (simp add: working_env_def quiet_world_def)
  have run: "ffmpeg_run working_env ''/tmp/tmpk3v9in'' (''/tmp/tmpq7x2out'' @ ''.mp3'') b
      = Completed [0x49, 0x44, 0x33]" for b
    by (simp add: working_env_def)
  note tu = nameless_upload_is_handled [OF hu, of working_env quiet_world "''/tmp/tmpk3v9in''"
      "''/tmp/tmpq7x2out''" "[0x49, 0x44, 0x33]" "''whisper-1''"]
  note tv = nameless_upload_is_handled [OF hv, of working_env quiet_world "''/tmp/tmpk3v9in''"
      "''/tmp/tmpq7x2out''" "[0x49, 0x44, 0x33]" "''whisper-1''"]
  from tu have a: "\<not> already_supported ?u" by blast
  from tu coop run have b: "fst (extract_audio_stream working_env ?u quiet_world)
       = Inr (BytesIO [0x49, 0x44, 0x33], ''audio.mp3'')"
    by blast
  from tv coop run have c: "fst (extract_audio_stream working_env ?v quiet_world)
       = Inr (BytesIO [0x49, 0x44, 0x33], ''audio.mp3'')"
    by blast
  from tu have "transcribe_from_upload working_env \<lparr>audio_extraction_service = None\<rparr> ?u ''whisper-1'' quiet_world
           = (whisper working_env ''whisper-1'' ''audio'' (file_bytes ?u),
              quiet_world\<lparr>upload_pos := length (file_bytes ?u),
                calls := calls quiet_world
                  @ [TranscriptionsCreate ''whisper-1'' ''audio'' UploadStream (file_bytes ?u)]\<rparr>)"
    by blast
  then have d: "calls (snd (transcribe_from_upload working_env \<lparr>audio_extraction_service = None\<rparr>
                   ?u ''whisper-1'' quiet_world))
       = [TranscriptionsCreate ''whisper-1'' ''audio'' UploadStream [0, 0, 0, 0x18]]"
    by (simp add: quiet_world_def clip_upload_def)
  from a b c d show ?thesis by blast
qed

end
